theory Spec2Isabelle
  imports Complex_Main "HOL-Library.Sublist"
begin

section \<open>Python strings\<close>

text \<open>
  Strings are \<^typ>\<open>string\<close>; a character is a code point below 256. The helpers below are
  the \<open>str\<close> methods that \<open>main.py\<close> calls.
\<close>

definition newline :: char where
  "newline = CHR 0x0A"

definition backslash :: char where
  "backslash = CHR 0x5C"

definition is_space :: "char \<Rightarrow> bool" where
  \<comment> \<open>\<open>str.isspace\<close> on the code points below 256\<close>
  "is_space c = (c \<in> {CHR 0x09, CHR 0x0A, CHR 0x0B, CHR 0x0C, CHR 0x0D,
                       CHR 0x1C, CHR 0x1D, CHR 0x1E, CHR 0x1F, CHR 0x20, CHR 0x85, CHR 0xA0})"

definition py_strip :: "string \<Rightarrow> string" where
  \<comment> \<open>\<open>s.strip()\<close>\<close>
  "py_strip s = rev (dropWhile is_space (rev (dropWhile is_space s)))"

fun py_split_aux :: "string \<Rightarrow> string \<Rightarrow> string list" where
  \<comment> \<open>the word being read (reversed) and the rest of the text\<close>
  "py_split_aux w [] = (if w = [] then [] else [rev w])"
| "py_split_aux w (c # cs) =
     (if is_space c then (if w = [] then py_split_aux [] cs else rev w # py_split_aux [] cs)
      else py_split_aux (c # w) cs)"

definition py_split :: "string \<Rightarrow> string list" where
  \<comment> \<open>\<open>s.split()\<close>: the maximal runs of non-whitespace\<close>
  "py_split s = py_split_aux [] s"

fun py_replace_aux :: "string \<Rightarrow> string \<Rightarrow> nat \<Rightarrow> string \<Rightarrow> string" where
  \<comment> \<open>\<open>skip\<close> counts the characters of a match that are still to be dropped\<close>
  "py_replace_aux old new skip [] = []"
| "py_replace_aux old new (Suc k) (c # cs) = py_replace_aux old new k cs"
| "py_replace_aux old new 0 (c # cs) =
     (if prefix old (c # cs) then new @ py_replace_aux old new (length old - 1) cs
      else c # py_replace_aux old new 0 cs)"

definition py_replace :: "string \<Rightarrow> string \<Rightarrow> string \<Rightarrow> string" where
  \<comment> \<open>\<open>s.replace(old, new)\<close> for a non-empty \<open>old\<close>: the non-overlapping matches,
      leftmost first. Every call in \<open>main.py\<close> has a non-empty literal for \<open>old\<close>.\<close>
  "py_replace old new s = py_replace_aux old new 0 s"

definition py_join :: "string \<Rightarrow> string list \<Rightarrow> string" where
  \<comment> \<open>\<open>sep.join(parts)\<close>\<close>
  "py_join sep parts = (case parts of [] \<Rightarrow> [] | p # ps \<Rightarrow> p @ concat (map (\<lambda>q. sep @ q) ps))"

function str_nat :: "nat \<Rightarrow> string" where
  \<comment> \<open>\<open>str(n)\<close> of a non-negative \<open>int\<close>\<close>
  "str_nat n =
     (if n < 10 then [''0123456789'' ! n]
      else str_nat (n div 10) @ [''0123456789'' ! (n mod 10)])"
  by pat_completeness auto
termination
  by (relation "measure id") auto

section \<open>Python numbers\<close>

text \<open>
  A Python \<open>float\<close> is an IEEE 754 double. It is modelled by the rational number it
  denotes, and every float operation rounds its exact result to the nearest double, ties to
  the even mantissa, as the hardware does. Overflow to infinity (results of magnitude
  \<open>2^1024\<close> and more) and NaN are outside the model.
\<close>

function bit_length :: "int \<Rightarrow> int" where
  \<comment> \<open>\<open>n.bit_length()\<close> of a non-negative \<open>n\<close>\<close>
  "bit_length n = (if n \<le> 0 then 0 else 1 + bit_length (n div 2))"
  by pat_completeness auto
termination
  by (relation "measure nat") auto

definition round_half_even :: "rat \<Rightarrow> int" where
  \<comment> \<open>the nearest integer, the even one of two equally near\<close>
  "round_half_even x =
     (let f = \<lfloor>x\<rfloor>; r = x - of_int f
      in if r < 1 / 2 then f else if 1 / 2 < r then f + 1 else if even f then f else f + 1)"

definition binary_exponent :: "rat \<Rightarrow> int" where
  \<comment> \<open>for \<open>x > 0\<close>, the \<open>e\<close> with \<open>2^e \<le> x < 2^(e+1)\<close>, found from the bit lengths of
      numerator and denominator\<close>
  "binary_exponent x =
     (let (a, b) = quotient_of x;
          e0 = bit_length a - bit_length b
      in if 2 powi e0 \<le> x then e0 else e0 - 1)"

definition round_double :: "rat \<Rightarrow> rat" where
  \<comment> \<open>Round to nearest, ties to even, with 53 bits of mantissa: the spacing of the doubles
      around \<open>x\<close> is \<open>2^(e - 52)\<close>, and \<open>2^(-1074)\<close> in the subnormal range.\<close>
  "round_double x =
     (if x = 0 then 0
      else let q = max (binary_exponent \<bar>x\<bar> - 52) (- 1074)
           in of_int (round_half_even (x / 2 powi q)) * 2 powi q)"

datatype pynum =
  PyInt int  \<comment> \<open>an \<open>int\<close>\<close>
| PyFloat rat  \<comment> \<open>a \<open>float\<close>, by its value\<close>

fun py_value :: "pynum \<Rightarrow> rat" where
  \<comment> \<open>the number denoted; comparisons between \<open>int\<close> and \<open>float\<close> compare these\<close>
  "py_value (PyInt i) = of_int i"
| "py_value (PyFloat x) = x"

fun to_float :: "pynum \<Rightarrow> rat" where
  \<comment> \<open>\<open>float(x)\<close>, the conversion that a mixed operation applies to its \<open>int\<close> operand\<close>
  "to_float (PyInt i) = round_double (of_int i)"
| "to_float (PyFloat x) = x"

fun py_add :: "pynum \<Rightarrow> pynum \<Rightarrow> pynum" where
  \<comment> \<open>\<open>a + b\<close>: exact on two \<open>int\<close>s, a rounded float addition otherwise\<close>
  "py_add (PyInt a) (PyInt b) = PyInt (a + b)"
| "py_add a b = PyFloat (round_double (to_float a + to_float b))"

fun py_mul :: "pynum \<Rightarrow> pynum \<Rightarrow> pynum" where
  \<comment> \<open>\<open>a * b\<close>\<close>
  "py_mul (PyInt a) (PyInt b) = PyInt (a * b)"
| "py_mul a b = PyFloat (round_double (to_float a * to_float b))"

text \<open>
  The builtin \<open>sum\<close> starts from the \<open>int\<close> 0 and adds from left to right. While the running
  result is an \<open>int\<close> it adds with \<open>+\<close>. Once the result is a \<open>float\<close>, CPython up to 3.11 goes on
  with float additions; from 3.12 on it adds a \<open>float\<close> item by Neumaier's compensated step,
  which collects the rounding errors in \<open>c\<close> and adds them at the end (an \<open>int\<close> item is still
  added plainly). The flag \<open>compensated\<close> selects the second behaviour.
\<close>

definition neumaier_term :: "rat \<Rightarrow> rat \<Rightarrow> rat \<Rightarrow> rat" where
  \<comment> \<open>\<open>(f_result - t) + x\<close> if \<open>fabs(f_result) >= fabs(x)\<close>, else \<open>(x - t) + f_result\<close>\<close>
  "neumaier_term f x t =
     (if \<bar>f\<bar> \<ge> \<bar>x\<bar> then round_double (round_double (f - t) + x)
      else round_double (round_double (x - t) + f))"

fun sum_loop :: "bool \<Rightarrow> pynum \<Rightarrow> rat \<Rightarrow> pynum list \<Rightarrow> pynum" where
  "sum_loop compensated (PyInt i) c [] = PyInt i"
| "sum_loop compensated (PyFloat f) c [] =
     PyFloat (if c \<noteq> 0 then round_double (f + c) else f)"
| "sum_loop compensated (PyInt i) c (item # items) =
     sum_loop compensated (py_add (PyInt i) item) 0 items"
| "sum_loop compensated (PyFloat f) c (PyInt v # items) =
     sum_loop compensated (PyFloat (round_double (f + to_float (PyInt v)))) c items"
| "sum_loop compensated (PyFloat f) c (PyFloat x # items) =
     (let t = round_double (f + x)
      in if compensated
         then sum_loop compensated (PyFloat t) (round_double (c + neumaier_term f x t)) items
         else sum_loop compensated (PyFloat t) c items)"

definition py_sum :: "bool \<Rightarrow> pynum list \<Rightarrow> pynum" where
  \<comment> \<open>\<open>sum(xs)\<close>\<close>
  "py_sum compensated xs = sum_loop compensated (PyInt 0) 0 xs"

definition py_int :: "rat \<Rightarrow> int" where
  \<comment> \<open>\<open>int(x)\<close> of a float: truncation towards zero\<close>
  "py_int x = (if 0 \<le> x then \<lfloor>x\<rfloor> else \<lceil>x\<rceil>)"

section \<open>TokenManager\<close>

text \<open>
  The tiktoken encoder is outside the repository: \<open>encoder\<close> holds its \<open>encode\<close> function, or
  \<open>None\<close> when \<open>tiktoken.get_encoding\<close> raised. The literal 6.25 is the double \<open>25/4\<close>; the
  literal 1.3 is the double nearest to \<open>13/10\<close>.
\<close>

record TokenManager =
  encoder :: "(string \<Rightarrow> nat list) option"
  max_context_tokens :: int
  image_tokens :: int
  audio_tokens_per_second :: rat

definition TokenManager_init :: "(string \<Rightarrow> nat list) option \<Rightarrow> TokenManager" where
  "TokenManager_init enc =
     \<lparr>encoder = enc, max_context_tokens = 32000, image_tokens = 256,
      audio_tokens_per_second = 25 / 4\<rparr>"

definition count_text_tokens :: "TokenManager \<Rightarrow> string option \<Rightarrow> pynum" where
  \<comment> \<open>\<open>text\<close> is \<open>None\<close> or a \<open>str\<close>; \<open>not text\<close> holds for \<open>None\<close> and for the empty string\<close>
  "count_text_tokens tm text =
     (case text of
        None \<Rightarrow> PyInt 0
      | Some t \<Rightarrow>
          if t = [] then PyInt 0
          else (case encoder tm of
                  Some enc \<Rightarrow> PyInt (int (length (enc t)))
                | None \<Rightarrow>
                    py_mul (PyInt (int (length (py_split t)))) (PyFloat (round_double (13 / 10)))))"

definition count_image_tokens :: "TokenManager \<Rightarrow> int \<Rightarrow> int" where
  "count_image_tokens tm image_count = image_count * image_tokens tm"

definition count_audio_tokens :: "TokenManager \<Rightarrow> rat \<Rightarrow> int" where
  \<comment> \<open>\<open>duration_seconds\<close> is a float; the product is a float multiplication\<close>
  "count_audio_tokens tm duration_seconds =
     py_int (round_double (duration_seconds * audio_tokens_per_second tm))"

section \<open>DocumentViewer\<close>

text \<open>
  The fields of the viewer that its page, zoom and selection handlers read and write. The
  handlers end in \<open>display_pdf_page\<close>, which only reads these fields; an exception it raises
  after the assignment leaves the assignment in place.
\<close>

record DocumentViewer =
  total_pages :: int
  is_pdf :: bool
  current_page :: int
  selected_pages :: "int set"
  zoom_level :: rat

definition DocumentViewer_init :: "bool \<Rightarrow> int \<Rightarrow> DocumentViewer" where
  \<comment> \<open>\<open>pdf\<close>: the extension is \<open>.pdf\<close>; \<open>n\<close> is \<open>len(fitz.open(doc_path))\<close>\<close>
  "DocumentViewer_init pdf n =
     \<lparr>total_pages = (if pdf then n else 1), is_pdf = pdf, current_page = 0,
      selected_pages = {}, zoom_level = 1\<rparr>"

definition prev_page :: "DocumentViewer \<Rightarrow> DocumentViewer" where
  "prev_page v = (if current_page v > 0 then v\<lparr>current_page := current_page v - 1\<rparr> else v)"

definition next_page :: "DocumentViewer \<Rightarrow> DocumentViewer" where
  "next_page v =
     (if current_page v < total_pages v - 1 then v\<lparr>current_page := current_page v + 1\<rparr> else v)"

definition zoom_in :: "DocumentViewer \<Rightarrow> DocumentViewer" where
  "zoom_in v = v\<lparr>zoom_level := min 3 (zoom_level v + 1 / 5)\<rparr>"

definition zoom_out :: "DocumentViewer \<Rightarrow> DocumentViewer" where
  "zoom_out v = v\<lparr>zoom_level := max (1 / 2) (zoom_level v - 1 / 5)\<rparr>"

definition toggle_page_selection :: "DocumentViewer \<Rightarrow> DocumentViewer" where
  "toggle_page_selection v =
     (if \<not> is_pdf v then v
      else let page_num = current_page v + 1
           in if page_num \<in> selected_pages v
              then v\<lparr>selected_pages := selected_pages v - {page_num}\<rparr>
              else v\<lparr>selected_pages := insert page_num (selected_pages v)\<rparr>)"

definition select_range :: "DocumentViewer \<Rightarrow> int option \<Rightarrow> int option \<Rightarrow> DocumentViewer \<times> string option" where
  \<comment> \<open>\<open>page_from\<close> and \<open>page_to\<close> are the results of \<open>int(...)\<close> on the two entry fields,
      \<open>None\<close> where it raises ValueError; the second component is the error dialog shown\<close>
  "select_range v page_from page_to =
     (if \<not> is_pdf v then (v, None)
      else case page_from of
        None \<Rightarrow> (v, Some ''Please enter valid page numbers'')
      | Some start0 \<Rightarrow>
          (case page_to of
             None \<Rightarrow> (v, Some ''Please enter valid page numbers'')
           | Some end0 \<Rightarrow>
               let start = max 1 (min start0 (total_pages v));
                   end1 = max start (min end0 (total_pages v))
               in (v\<lparr>selected_pages := selected_pages v \<union> {start..end1}\<rparr>, None)))"

definition clear_selection :: "DocumentViewer \<Rightarrow> DocumentViewer" where
  "clear_selection v = (if \<not> is_pdf v then v else v\<lparr>selected_pages := {}\<rparr>)"

datatype viewer_op =
  PrevPage | NextPage | ZoomIn | ZoomOut | TogglePageSelection
| SelectRange "int option" "int option" | ClearSelection

fun apply_viewer_op :: "DocumentViewer \<Rightarrow> viewer_op \<Rightarrow> DocumentViewer" where
  "apply_viewer_op v PrevPage = prev_page v"
| "apply_viewer_op v NextPage = next_page v"
| "apply_viewer_op v ZoomIn = zoom_in v"
| "apply_viewer_op v ZoomOut = zoom_out v"
| "apply_viewer_op v TogglePageSelection = toggle_page_selection v"
| "apply_viewer_op v (SelectRange a b) = fst (select_range v a b)"
| "apply_viewer_op v ClearSelection = clear_selection v"

definition viewer_inv :: "DocumentViewer \<Rightarrow> bool" where
  "viewer_inv v =
     (0 \<le> current_page v \<and> current_page v < total_pages v
      \<and> 1 / 2 \<le> zoom_level v \<and> zoom_level v \<le> 3
      \<and> selected_pages v \<subseteq> {1..total_pages v})"

section \<open>Exceptions\<close>

datatype exn =
  OSError | ValueError | KeyError | AttributeError | JSONDecodeError
| TypeError string  \<comment> \<open>with its message\<close>
| PyException string  \<comment> \<open>\<open>Exception(message)\<close>\<close>
| KeyboardInterrupt | SystemExit

definition is_Exception :: "exn \<Rightarrow> bool" where
  \<comment> \<open>the classes below \<open>Exception\<close>; the other two derive from \<open>BaseException\<close> only\<close>
  "is_Exception e = (e \<noteq> KeyboardInterrupt \<and> e \<noteq> SystemExit)"

definition try_except :: "exn + 'a \<Rightarrow> (exn \<Rightarrow> bool) \<Rightarrow> (exn \<Rightarrow> exn + 'a) \<Rightarrow> exn + 'a" where
  \<comment> \<open>\<open>try: body / except <classes>: handler\<close>\<close>
  "try_except body caught handler =
     (case body of Inl e \<Rightarrow> (if caught e then handler e else Inl e) | Inr r \<Rightarrow> Inr r)"

section \<open>ModelManager\<close>

datatype json =
  JNull | JBool bool | JNum rat | JStr string | JArr "json list" | JObj "(string \<times> json) list"

text \<open>
  What the operating system and the model framework answer. The functions of
  \<open>ModelManager\<close> are modelled against one such answer sheet and log the calls they make.
\<close>

record world =
  config_exists :: bool  \<comment> \<open>\<open>os.path.exists(self.config_file)\<close>\<close>
  config_open :: "exn + string"  \<comment> \<open>\<open>open(self.config_file, 'r')\<close>: the text, or the error\<close>
  json_load :: "string \<Rightarrow> exn + json"  \<comment> \<open>\<open>json.load\<close> on a file with this text\<close>
  config_write :: "exn option"  \<comment> \<open>what \<open>open(..., 'w')\<close> and \<open>json.dump\<close> raise, if anything\<close>
  path_exists :: "string \<Rightarrow> bool"
  path_isdir :: "string \<Rightarrow> bool"
  online :: bool  \<comment> \<open>\<open>urlopen('https://huggingface.co')\<close> answers\<close>
  from_pretrained :: "string \<Rightarrow> exn option"  \<comment> \<open>\<open>FastModel.from_pretrained(model_name=...)\<close>\<close>
  save_pretrained :: "string \<Rightarrow> exn option"
  rmtree :: "string \<Rightarrow> exn option"
  walk_size :: "string \<Rightarrow> exn + int"  \<comment> \<open>the sum of \<open>os.path.getsize\<close> over \<open>os.walk\<close>\<close>

datatype effect =
  PathExists string | PathIsdir string | Rmtree string | Walk string
| UrlOpen string
| DownloadModelCalled string  \<comment> \<open>entry into \<open>ModelManager.download_model\<close>\<close>
| FromPretrained string
| SavePretrained string
| WriteConfig

definition os_path_join :: "string \<Rightarrow> string \<Rightarrow> string" where
  \<comment> \<open>\<open>posixpath.join\<close> of two arguments\<close>
  "os_path_join a b =
     (if prefix ''/'' b then b
      else if a = [] \<or> suffix ''/'' a then a @ b
      else a @ ''/'' @ b)"

definition models_dir_of :: "string \<Rightarrow> string" where
  \<comment> \<open>\<open>home\<close> is \<open>os.path.expanduser("~")\<close>\<close>
  "models_dir_of home = os_path_join (os_path_join home ''.educational_ai_tutor'') ''models''"

definition config_file_of :: "string \<Rightarrow> string" where
  "config_file_of home = os_path_join (os_path_join home ''.educational_ai_tutor'') ''config.json''"

definition default_config :: json where
  "default_config =
     JObj [(''downloaded_models'', JArr []), (''last_used_model'', JNull),
           (''offline_mode'', JBool False)]"

definition load_config :: "world \<Rightarrow> exn + json" where
  \<comment> \<open>the \<open>try\<close> block returns the parsed value or falls through (\<open>None\<close>); the bare
      \<open>except\<close> catches every exception\<close>
  "load_config w =
     (case try_except
             (if config_exists w
              then (case config_open w of
                      Inl e \<Rightarrow> Inl e
                    | Inr text \<Rightarrow> (case json_load w text of Inl e \<Rightarrow> Inl e | Inr v \<Rightarrow> Inr (Some v)))
              else Inr None)
             (\<lambda>e. True) (\<lambda>e. Inr None) of
        Inl e \<Rightarrow> Inl e
      | Inr (Some v) \<Rightarrow> Inr v
      | Inr None \<Rightarrow> Inr default_config)"

definition save_config :: "world \<Rightarrow> exn + unit" where
  \<comment> \<open>\<open>except Exception as e: print(...)\<close>\<close>
  "save_config w =
     try_except (case config_write w of Some e \<Rightarrow> Inl e | None \<Rightarrow> Inr ())
       is_Exception (\<lambda>e. Inr ())"

text \<open>
  The config that the functions below read is the one this application writes: a dict with
  the three keys of the default.
\<close>

record config =
  downloaded_models :: "string list"
  last_used_model :: "string option"
  offline_mode :: bool

record ModelManager =
  models_dir :: string
  config :: config

definition is_online :: "world \<Rightarrow> bool \<times> effect list" where
  "is_online w = (online w, [UrlOpen ''https://huggingface.co''])"

definition safe_name :: "string \<Rightarrow> string" where
  "safe_name model_name = py_replace [backslash] ''_'' (py_replace ''/'' ''_'' model_name)"

definition get_model_path :: "ModelManager \<Rightarrow> string \<Rightarrow> string" where
  "get_model_path mm model_name = os_path_join (models_dir mm) (safe_name model_name)"

definition is_model_downloaded :: "ModelManager \<Rightarrow> world \<Rightarrow> string \<Rightarrow> bool \<times> effect list" where
  \<comment> \<open>\<open>os.path.exists(model_path) and os.path.isdir(model_path)\<close>\<close>
  "is_model_downloaded mm w model_name =
     (let model_path = get_model_path mm model_name
      in if path_exists w model_path
         then (path_isdir w model_path, [PathExists model_path, PathIsdir model_path])
         else (False, [PathExists model_path]))"

definition py_remove :: "'a \<Rightarrow> 'a list \<Rightarrow> 'a list" where
  \<comment> \<open>\<open>xs.remove(x)\<close> for an \<open>x\<close> that is in \<open>xs\<close>: the first occurrence goes\<close>
  "py_remove x xs = remove1 x xs"

definition download_model ::
  "ModelManager \<Rightarrow> world \<Rightarrow> string \<Rightarrow> (exn + string) \<times> ModelManager \<times> effect list" where
  \<comment> \<open>The result stands for the pair (model, tokenizer): the name it was loaded from.
      \<open>progress_callback\<close> only reports status text and is left out. The handler
      re-raises what it caught.\<close>
  "download_model mm w model_name =
     (let (on, fx0) = is_online w; fx1 = DownloadModelCalled model_name # fx0
      in if \<not> on then (Inl (PyException ''No internet connection available''), mm, fx1)
         else let fx2 = fx1 @ [FromPretrained model_name]
              in case from_pretrained w model_name of
                   Some e \<Rightarrow> (Inl e, mm, fx2)
                 | None \<Rightarrow>
                     let model_path = get_model_path mm model_name;
                         fx3 = fx2 @ [SavePretrained model_path]
                     in (case save_pretrained w model_path of
                           Some e \<Rightarrow> (Inl e, mm, fx3)
                         | None \<Rightarrow>
                             let c = config mm;
                                 c1 = (if model_name \<notin> set (downloaded_models c)
                                       then c\<lparr>downloaded_models := downloaded_models c @ [model_name]\<rparr>
                                       else c);
                                 mm' = mm\<lparr>config := c1\<lparr>last_used_model := Some model_name\<rparr>\<rparr>;
                                 fx4 = fx3 @ [WriteConfig]
                             in (case save_config w of
                                   Inl e \<Rightarrow> (Inl e, mm', fx4)
                                 | Inr _ \<Rightarrow> (Inr model_name, mm', fx4))))"

definition load_local_model ::
  "ModelManager \<Rightarrow> world \<Rightarrow> string \<Rightarrow> (exn + string) \<times> ModelManager \<times> effect list" where
  "load_local_model mm w model_name =
     (let model_path = get_model_path mm model_name;
          (have, fx0) = is_model_downloaded mm w model_name
      in if \<not> have
         then (Inl (PyException (''Model '' @ model_name @ '' not found locally'')), mm, fx0)
         else let fx1 = fx0 @ [FromPretrained model_path]
              in case from_pretrained w model_path of
                   Some e \<Rightarrow> (Inl e, mm, fx1)
                 | None \<Rightarrow>
                     let mm' = mm\<lparr>config := (config mm)\<lparr>last_used_model := Some model_name\<rparr>\<rparr>;
                         fx2 = fx1 @ [WriteConfig]
                     in (case save_config w of
                           Inl e \<Rightarrow> (Inl e, mm', fx2)
                         | Inr _ \<Rightarrow> (Inr model_path, mm', fx2)))"

definition load_model ::
  "ModelManager \<Rightarrow> world \<Rightarrow> string \<Rightarrow> (exn + string) \<times> ModelManager \<times> effect list" where
  \<comment> \<open>local first; an \<open>Exception\<close> of the local load is printed and the download follows\<close>
  "load_model mm w model_name =
     (let (have, fx0) = is_model_downloaded mm w model_name
      in if have
         then (case load_local_model mm w model_name of
                 (Inr r, mm1, fx1) \<Rightarrow> (Inr r, mm1, fx0 @ fx1)
               | (Inl e, mm1, fx1) \<Rightarrow>
                   if is_Exception e
                   then (case download_model mm1 w model_name of
                           (r, mm2, fx2) \<Rightarrow> (r, mm2, fx0 @ fx1 @ fx2))
                   else (Inl e, mm1, fx0 @ fx1))
         else (case download_model mm w model_name of
                 (r, mm2, fx2) \<Rightarrow> (r, mm2, fx0 @ fx2)))"

definition delete_model :: "ModelManager \<Rightarrow> world \<Rightarrow> string \<Rightarrow> (exn + bool) \<times> ModelManager \<times> effect list" where
  \<comment> \<open>\<open>except Exception\<close>: prints and returns \<open>False\<close>\<close>
  "delete_model mm w model_name =
     (let model_path = get_model_path mm model_name;
          fx0 = [PathExists model_path];
          removed = (if path_exists w model_path then rmtree w model_path else None);
          fx1 = (if path_exists w model_path then fx0 @ [Rmtree model_path] else fx0)
      in case removed of
           Some e \<Rightarrow> (if is_Exception e then Inr False else Inl e, mm, fx1)
         | None \<Rightarrow>
             let c = config mm;
                 c1 = (if model_name \<in> set (downloaded_models c)
                       then c\<lparr>downloaded_models := py_remove model_name (downloaded_models c)\<rparr>
                       else c);
                 c2 = (if last_used_model c1 = Some model_name then c1\<lparr>last_used_model := None\<rparr>
                       else c1);
                 mm' = mm\<lparr>config := c2\<rparr>;
                 fx2 = fx1 @ [WriteConfig]
             in (case save_config w of
                   Inl e \<Rightarrow> (Inl e, mm', fx2)
                 | Inr _ \<Rightarrow> (Inr True, mm', fx2)))"

definition get_model_size :: "ModelManager \<Rightarrow> world \<Rightarrow> string \<Rightarrow> int \<times> effect list" where
  \<comment> \<open>the bare \<open>except\<close> returns 0\<close>
  "get_model_size mm w model_name =
     (let model_path = get_model_path mm model_name
      in if \<not> path_exists w model_path then (0, [PathExists model_path])
         else (case walk_size w model_path of Inl e \<Rightarrow> 0 | Inr n \<Rightarrow> n,
               [PathExists model_path, Walk model_path]))"

datatype startup_outcome =
  OfflineNoModel  \<comment> \<open>"Offline mode enabled but no models downloaded"\<close>
| NoInternetNoModel  \<comment> \<open>"No internet connection and no local models"\<close>
| ModelLoadComplete string string  \<comment> \<open>\<open>model_load_complete\<close>: what was loaded, and the model name\<close>
| ModelLoadError exn  \<comment> \<open>\<open>model_load_error\<close>\<close>
| Uncaught exn  \<comment> \<open>not an \<open>Exception\<close>: leaves the loader thread\<close>

definition init_model_async :: "ModelManager \<Rightarrow> world \<Rightarrow> startup_outcome \<times> ModelManager \<times> effect list" where
  \<comment> \<open>the body of the loader thread \<open>load_model\<close> inside \<open>ChatbotApp.init_model_async\<close>\<close>
  "init_model_async mm w =
     (let last_used = (case last_used_model (config mm) of
                         None \<Rightarrow> ''unsloth/gemma-3n-E4B-it''
                       | Some m \<Rightarrow> if m = [] then ''unsloth/gemma-3n-E4B-it'' else m);
          offline = offline_mode (config mm);
          (on, fx0) = is_online w;
          (have1, fx1) = (if offline then is_model_downloaded mm w last_used else (True, []))
      in if offline \<and> \<not> have1 then (OfflineNoModel, mm, fx0 @ fx1)
         else let (have2, fx2) = (if \<not> on then is_model_downloaded mm w last_used else (True, []))
              in if \<not> on \<and> \<not> have2 then (NoInternetNoModel, mm, fx0 @ fx1 @ fx2)
                 else (case load_model mm w last_used of
                         (Inr r, mm', fx3) \<Rightarrow> (ModelLoadComplete r last_used, mm', fx0 @ fx1 @ fx2 @ fx3)
                       | (Inl e, mm', fx3) \<Rightarrow>
                           (if is_Exception e then ModelLoadError e else Uncaught e,
                            mm', fx0 @ fx1 @ fx2 @ fx3)))"

fun split_on :: "char \<Rightarrow> string \<Rightarrow> string list" where
  \<comment> \<open>\<open>s.split(sep)\<close>\<close>
  "split_on sep [] = [[]]"
| "split_on sep (c # cs) =
     (if c = sep then [] # split_on sep cs
      else (case split_on sep cs of [] \<Rightarrow> [[c]] | w # ws \<Rightarrow> (c # w) # ws))"

definition resolve_step :: "string list \<Rightarrow> string \<Rightarrow> string list" where
  "resolve_step st part =
     (if part = [] \<or> part = ''.'' then st
      else if part = ''..'' then butlast st
      else st @ [part])"

definition path_components :: "string \<Rightarrow> string list" where
  \<comment> \<open>The directory entries that an absolute POSIX path walks through, after \<open>.\<close> and
      \<open>..\<close> are resolved (as \<open>posixpath.normpath\<close> does; the parent of the root is the root).\<close>
  "path_components p = foldl resolve_step [] (split_on CHR ''/'' p)"

definition single_child_of :: "string \<Rightarrow> string \<Rightarrow> bool" where
  \<comment> \<open>\<open>p\<close> is a direct entry of the directory \<open>d\<close>\<close>
  "single_child_of d p = (path_components p \<noteq> [] \<and> butlast (path_components p) = path_components d)"

definition under_dir :: "string \<Rightarrow> string \<Rightarrow> bool" where
  \<comment> \<open>\<open>p\<close> lies strictly below the directory \<open>d\<close>\<close>
  "under_dir d p = strict_prefix (path_components d) (path_components p)"

subsection \<open>Concrete managers and worlds\<close>

definition example_manager :: "bool \<Rightarrow> ModelManager" where
  \<comment> \<open>the manager of a user whose home is \<open>/home/user\<close>, after one download\<close>
  "example_manager off =
     \<lparr>models_dir = models_dir_of ''/home/user'',
      config = \<lparr>downloaded_models = [''unsloth/gemma-3n-E4B-it''],
                last_used_model = Some ''unsloth/gemma-3n-E4B-it'', offline_mode = off\<rparr>\<rparr>"

definition corrupt_cache_world :: world where
  \<comment> \<open>Online; every path asked for is an existing directory; loading from a local path fails,
      loading from the hub works; the config file holds \<open>{}\<close> and cannot be written.\<close>
  "corrupt_cache_world =
     \<lparr>config_exists = True,
      config_open = Inr ''{}'',
      json_load = (\<lambda>t. if t = ''{}'' then Inr (JObj []) else Inl JSONDecodeError),
      config_write = Some OSError,
      path_exists = (\<lambda>p. True),
      path_isdir = (\<lambda>p. True),
      online = True,
      from_pretrained = (\<lambda>n. if prefix ''/'' n then Some OSError else None),
      save_pretrained = (\<lambda>p. None),
      rmtree = (\<lambda>p. None),
      walk_size = (\<lambda>p. Inr 0)\<rparr>"

definition empty_cache_world :: world where
  \<comment> \<open>Online; no model directory exists; the config file holds text that is not JSON.\<close>
  "empty_cache_world =
     \<lparr>config_exists = True,
      config_open = Inr ''{'',
      json_load = (\<lambda>t. if t = ''{}'' then Inr (JObj []) else Inl JSONDecodeError),
      config_write = None,
      path_exists = (\<lambda>p. False),
      path_isdir = (\<lambda>p. False),
      online = True,
      from_pretrained = (\<lambda>n. None),
      save_pretrained = (\<lambda>p. None),
      rmtree = (\<lambda>p. None),
      walk_size = (\<lambda>p. Inr 0)\<rparr>"


section \<open>Messages\<close>

text \<open>
  The values that \<open>ModelThread.run\<close> inspects in its list of messages. A message is a dict
  or something else; a value stored in a dict is a \<open>str\<close>, a list, or another object, which
  is kept with the name of its type and its \<open>str()\<close> rendering; an element of a content list
  is a \<open>str\<close>, a dict or something else.
\<close>

datatype pyval = VStr string | VList "item list" | VOther string string
  and item = IStr string | IDict "(string \<times> pyval) list" | IOther

datatype message = MDict "(string \<times> pyval) list" | MOther

definition dict_get :: "(string \<times> 'v) list \<Rightarrow> string \<Rightarrow> 'v \<Rightarrow> 'v" where
  \<comment> \<open>\<open>d.get(key, default)\<close>\<close>
  "dict_get d key dflt = (case map_of d key of Some v \<Rightarrow> v | None \<Rightarrow> dflt)"

definition role_content :: "string \<Rightarrow> string \<Rightarrow> message" where
  \<comment> \<open>\<open>{"role": role, "content": content}\<close>\<close>
  "role_content r c = MDict [(''role'', VStr r), (''content'', VStr c)]"

record ModelThread =
  messages :: "message list"
  max_tokens :: int

section \<open>ChatbotApp\<close>

datatype attachment =
  ImageAttachment string  \<comment> \<open>\<open>{"type": "image", "image": path}\<close>\<close>
| AudioAttachment string  \<comment> \<open>\<open>{"type": "audio", "audio": path}\<close>\<close>

fun is_image :: "attachment \<Rightarrow> bool" where
  "is_image (ImageAttachment p) = True"
| "is_image (AudioAttachment p) = False"

fun attachment_file :: "attachment \<Rightarrow> string" where
  "attachment_file (ImageAttachment p) = p"
| "attachment_file (AudioAttachment p) = p"

record history_entry =
  role :: string
  content :: string
  tokens :: pynum

datatype ui_event =
  Warning string  \<comment> \<open>\<open>messagebox.showwarning(title, ...)\<close>\<close>
| TokenLimitExceeded pynum  \<comment> \<open>\<open>messagebox.showerror("Token Limit Exceeded", ...)\<close> with the total\<close>
| ContextIncluded  \<comment> \<open>the line "[Chat context included in query]" in the chat display\<close>
| AttachmentsNotSent nat
    \<comment> \<open>the system message "Note: n attachment(s) stored but not sent to model (format compatibility)"\<close>

text \<open>
  The fields that \<open>send_message\<close> reads and writes. \<open>input_text\<close> and \<open>context_display\<close> are the
  texts of the two widgets; \<open>history_messages_var\<close> is the result of \<open>int(...)\<close> on the
  spinbox text, \<open>None\<close> where it raises. \<open>ui_log\<close> collects the dialogs and notes shown and
  \<open>started_threads\<close> the threads on which \<open>start()\<close> was called. \<open>sum_compensated\<close> is a fact
  about the interpreter the application runs on (see \<open>py_sum\<close>), constant during a run.
\<close>

record ChatbotApp =
  token_manager :: TokenManager
  model_loaded :: bool
  is_generating :: bool
  input_text :: string
  context_display :: string
  history_messages_var :: "int option"
  chat_history :: "history_entry list"
  attachments :: "attachment list"
  max_output_tokens :: int
  current_generation_thread :: "ModelThread option"
  ui_log :: "ui_event list"
  started_threads :: "ModelThread list"
  sum_compensated :: bool

definition py_slice_from :: "int \<Rightarrow> 'a list \<Rightarrow> 'a list" where
  \<comment> \<open>\<open>xs[k:]\<close>: a negative \<open>k\<close> counts from the end\<close>
  "py_slice_from k xs =
     (if k < 0 then drop (nat (max 0 (int (length xs) + k))) xs else drop (nat k) xs)"

definition max_messages_of :: "ChatbotApp \<Rightarrow> int" where
  \<comment> \<open>\<open>try: max_messages = int(self.history_messages_var.get()) / except: max_messages = 10\<close>\<close>
  "max_messages_of app = (case history_messages_var app of Some n \<Rightarrow> n | None \<Rightarrow> 10)"

definition add_audio_tokens :: "TokenManager \<Rightarrow> (string \<Rightarrow> rat option) \<Rightarrow> int \<Rightarrow> attachment \<Rightarrow> int" where
  \<comment> \<open>one pass of the loop over the attachments; \<open>duration_of\<close> is \<open>sf.info(path).duration\<close>,
      \<open>None\<close> where that raises\<close>
  "add_audio_tokens tm duration_of audio_tokens a =
     (case a of
        ImageAttachment p \<Rightarrow> audio_tokens
      | AudioAttachment p \<Rightarrow>
          (case duration_of p of
             Some duration \<Rightarrow> audio_tokens + count_audio_tokens tm duration
           | None \<Rightarrow> audio_tokens + 100))"

definition calculate_total_input_tokens :: "ChatbotApp \<Rightarrow> (string \<Rightarrow> rat option) \<Rightarrow> pynum" where
  "calculate_total_input_tokens app duration_of =
     (let tm = token_manager app;
          text_tokens = count_text_tokens tm (Some (py_strip (input_text app)));
          context_tokens = count_text_tokens tm (Some (py_strip (context_display app)));
          max_messages = max_messages_of app;
          recent_history =
            (if int (length (chat_history app)) > max_messages
             then py_slice_from (- max_messages) (chat_history app)
             else chat_history app);
          history_tokens = py_sum (sum_compensated app) (map tokens recent_history);
          image_count = int (length (filter is_image (attachments app)));
          image_tokens = count_image_tokens tm image_count;
          audio_tokens = foldl (add_audio_tokens tm duration_of) 0 (attachments app)
      in py_add (py_add (py_add (py_add text_tokens context_tokens) history_tokens)
                   (PyInt image_tokens))
           (PyInt audio_tokens))"

definition add_message :: "ChatbotApp \<Rightarrow> string \<Rightarrow> string \<Rightarrow> pynum \<Rightarrow> ChatbotApp" where
  \<comment> \<open>the chat display is not modelled; \<open>update_history_context\<close> only redraws\<close>
  "add_message app r c toks =
     (let entry = \<lparr>role = r, content = c,
                   tokens = (if py_value toks \<noteq> 0 then toks
                             else count_text_tokens (token_manager app) (Some c))\<rparr>
      in app\<lparr>chat_history := chat_history app @ [entry]\<rparr>)"

definition full_message_of :: "string \<Rightarrow> string \<Rightarrow> string" where
  \<comment> \<open>lines 3712 to 3714\<close>
  "full_message_of text context_text =
     (if context_text \<noteq> []
      then ''Based on the context below, please answer: '' @ text @ [newline, newline]
           @ ''Context:'' @ [newline] @ context_text
      else text)"

definition history_messages :: "history_entry list \<Rightarrow> message list" where
  \<comment> \<open>the loop of lines 3733 to 3737\<close>
  "history_messages recent_history =
     concat (map (\<lambda>entry. if py_strip (content entry) \<noteq> []
                            then [role_content (role entry) (content entry)] else [])
                 recent_history)"

definition build_messages :: "ChatbotApp \<Rightarrow> string \<Rightarrow> string \<Rightarrow> message list" where
  \<comment> \<open>lines 3722 to 3743, run after the new user entry was appended to \<open>chat_history\<close>\<close>
  "build_messages app text full_message =
     (let max_messages = max_messages_of app;
          recent_history0 = butlast (chat_history app);
          recent_history =
            (if int (length recent_history0) > max_messages
             then py_slice_from (- max_messages) recent_history0
             else recent_history0);
          messages0 = history_messages recent_history;
          messages1 = (if full_message \<noteq> [] then messages0 @ [role_content ''user'' full_message]
                       else messages0)
      in if messages1 = [] then [role_content ''user'' (if text \<noteq> [] then text else ''Hello'')]
         else messages1)"

definition send_message :: "ChatbotApp \<Rightarrow> (string \<Rightarrow> rat option) \<Rightarrow> ChatbotApp" where
  "send_message app duration_of =
     (if \<not> model_loaded app then app\<lparr>ui_log := ui_log app @ [Warning ''Model Loading'']\<rparr>
      else if is_generating app
      then app\<lparr>ui_log := ui_log app @ [Warning ''Generation Active'']\<rparr>
      else
        let total_input_tokens = calculate_total_input_tokens app duration_of
        in if py_value total_input_tokens > of_int (max_context_tokens (token_manager app))
           then app\<lparr>ui_log := ui_log app @ [TokenLimitExceeded total_input_tokens]\<rparr>
           else
             let text = py_strip (input_text app);
                 context_text = py_strip (context_display app)
             in if text = [] \<and> context_text = []
                then app\<lparr>ui_log := ui_log app @ [Warning ''Empty Message'']\<rparr>
                else
                  let full_message = full_message_of text context_text;
                      app1 = (if context_text \<noteq> []
                              then app\<lparr>ui_log := ui_log app @ [ContextIncluded]\<rparr> else app);
                      input_tokens = count_text_tokens (token_manager app1) (Some full_message);
                      app2 = add_message app1 ''user'' text input_tokens;
                      msgs = build_messages app2 text full_message;
                      app3 = (if attachments app2 \<noteq> []
                              then app2\<lparr>ui_log := ui_log app2
                                       @ [AttachmentsNotSent (length (attachments app2))]\<rparr>
                              else app2);
                      app4 = app3\<lparr>input_text := [], attachments := []\<rparr>;
                      thread = \<lparr>messages = msgs, max_tokens = max_output_tokens app4\<rparr>;
                      app5 = app4\<lparr>current_generation_thread := Some thread,
                                  started_threads := started_threads app4 @ [thread],
                                  is_generating := True\<rparr>
                  in add_message app5 ''assistant'' [] (PyInt 0))"

definition message_mentions :: "string \<Rightarrow> message \<Rightarrow> bool" where
  \<comment> \<open>the file of an attachment occurs in a string of the message\<close>
  "message_mentions file m =
     (case m of
        MDict d \<Rightarrow> list_ex (\<lambda>kv. case snd kv of VStr s \<Rightarrow> sublist file s | _ \<Rightarrow> False) d
      | MOther \<Rightarrow> False)"

definition attachment_included :: "attachment \<Rightarrow> message list \<Rightarrow> bool" where
  "attachment_included a msgs = list_ex (message_mentions (attachment_file a)) msgs"

definition recent_window :: "int \<Rightarrow> 'a list \<Rightarrow> 'a list" where
  \<comment> \<open>\<open>xs[-n:] if len(xs) > n else xs\<close>, the expression that \<open>calculate_total_input_tokens\<close>
      and \<open>send_message\<close> apply to the history\<close>
  "recent_window n xs = (if int (length xs) > n then py_slice_from (- n) xs else xs)"

definition sent_thread :: "ChatbotApp \<Rightarrow> ModelThread" where
  \<comment> \<open>the thread of a \<open>send_message\<close> that passes its four guards, in terms of the state before
      the call\<close>
  "sent_thread app =
     \<lparr>messages =
        history_messages (recent_window (max_messages_of app) (chat_history app))
        @ [role_content ''user''
             (full_message_of (py_strip (input_text app)) (py_strip (context_display app)))],
      max_tokens = max_output_tokens app\<rparr>"

subsection \<open>Concrete application states\<close>

definition no_audio :: "string \<Rightarrow> rat option" where
  \<comment> \<open>no file is readable audio\<close>
  "no_audio p = None"

definition example_app :: "int option \<Rightarrow> ChatbotApp" where
  \<comment> \<open>model loaded, three turns of history, one queued image, "hi" typed, no context; the
      argument is the history-size setting\<close>
  "example_app size_setting =
     \<lparr>token_manager = TokenManager_init None, model_loaded = True, is_generating = False,
      input_text = ''hi'' @ [newline], context_display = [newline],
      history_messages_var = size_setting,
      chat_history = [\<lparr>role = ''user'', content = ''one'', tokens = PyInt 1\<rparr>,
                      \<lparr>role = ''assistant'', content = ''two'', tokens = PyInt 1\<rparr>,
                      \<lparr>role = ''user'', content = ''three'', tokens = PyInt 1\<rparr>],
      attachments = [ImageAttachment ''/tmp/a.png''],
      max_output_tokens = 512, current_generation_thread = None, ui_log = [],
      started_threads = [], sum_compensated = True\<rparr>"

definition word_encoder :: "string \<Rightarrow> nat list" where
  \<comment> \<open>an encoder with one token for each word\<close>
  "word_encoder t = map length (py_split t)"

definition over_limit_app :: "bool \<Rightarrow> ChatbotApp" where
  \<comment> \<open>a working encoder and a history entry of 40000 tokens; the argument is \<open>model_loaded\<close>\<close>
  "over_limit_app loaded =
     (example_app (Some 10))\<lparr>token_manager := TokenManager_init (Some word_encoder),
        model_loaded := loaded,
        chat_history := [\<lparr>role = ''user'', content = ''one'', tokens = PyInt 40000\<rparr>]\<rparr>"

definition audio_app :: "int \<Rightarrow> ChatbotApp" where
  \<comment> \<open>a working encoder, one queued audio clip and one history entry with the given number
      of tokens\<close>
  "audio_app history_tokens =
     (example_app (Some 10))\<lparr>token_manager := TokenManager_init (Some word_encoder),
        chat_history := [\<lparr>role = ''user'', content = ''one'', tokens = PyInt history_tokens\<rparr>],
        attachments := [AudioAttachment ''/tmp/clip.wav'']\<rparr>"

definition clip_of :: "rat \<Rightarrow> string \<Rightarrow> rat option" where
  \<comment> \<open>every file is a clip of this many seconds\<close>
  "clip_of seconds p = Some seconds"

definition seconds_0_48 :: rat where
  \<comment> \<open>the double written \<open>0.48\<close>\<close>
  "seconds_0_48 = 1080863910568919 / 2251799813685248"

definition seconds_4_64 :: rat where
  \<comment> \<open>the double written \<open>4.64\<close>\<close>
  "seconds_4_64 = 5224175567749775 / 1125899906842624"

definition audio_tokens_of :: "(string \<Rightarrow> rat option) \<Rightarrow> attachment \<Rightarrow> int" where
  \<comment> \<open>the tokens of one attachment in the audio total: for an audio file \<open>int(seconds * 6.25)\<close>
      in float arithmetic, or 100 when its duration cannot be read\<close>
  "audio_tokens_of duration_of a =
     (case a of
        ImageAttachment p \<Rightarrow> 0
      | AudioAttachment p \<Rightarrow>
          (case duration_of p of
             Some seconds \<Rightarrow> py_int (round_double (seconds * (25 / 4)))
           | None \<Rightarrow> 100))"

section \<open>ModelThread.run\<close>

subsection \<open>The prompt\<close>

definition start_of_turn :: "string \<Rightarrow> string \<Rightarrow> string" where
  \<comment> \<open>\<open>f"<start_of_turn>{who}\n{content}<end_of_turn>\n"\<close>\<close>
  "start_of_turn who c =
     ''<start_of_turn>'' @ who @ [newline] @ c @ ''<end_of_turn>'' @ [newline]"

definition generation_prompt :: string where
  \<comment> \<open>\<open>"<start_of_turn>model\n"\<close>\<close>
  "generation_prompt = ''<start_of_turn>model'' @ [newline]"

fun the_str :: "pyval \<Rightarrow> string option" where
  "the_str (VStr s) = Some s"
| "the_str (VList xs) = None"
| "the_str (VOther t s) = None"

fun type_name :: "pyval \<Rightarrow> string" where
  \<comment> \<open>\<open>type(v).__name__\<close>\<close>
  "type_name (VStr s) = ''str''"
| "type_name (VList xs) = ''list''"
| "type_name (VOther t s) = t"

definition item_text_parts :: "item \<Rightarrow> pyval list" where
  \<comment> \<open>what one element of a content list appends to \<open>text_parts\<close>\<close>
  "item_text_parts it =
     (case it of
        IDict d \<Rightarrow> (if map_of d ''type'' = Some (VStr ''text'')
                    then [dict_get d ''text'' (VStr [])] else [])
      | IStr s \<Rightarrow> [VStr s]
      | IOther \<Rightarrow> [])"

fun first_non_str :: "nat \<Rightarrow> pyval list \<Rightarrow> (nat \<times> string) option" where
  \<comment> \<open>the index, counted from \<open>i\<close>, and the type name of the first part that is no \<open>str\<close>\<close>
  "first_non_str i [] = None"
| "first_non_str i (p # ps) =
     (case the_str p of Some s \<Rightarrow> first_non_str (Suc i) ps | None \<Rightarrow> Some (i, type_name p))"

definition str_parts :: "pyval list \<Rightarrow> string list" where
  \<comment> \<open>the parts that are \<open>str\<close>\<close>
  "str_parts parts = concat (map (\<lambda>p. case the_str p of Some s \<Rightarrow> [s] | None \<Rightarrow> []) parts)"

definition join_parts :: "pyval list \<Rightarrow> exn + string" where
  \<comment> \<open>\<open>' '.join(text_parts)\<close>: TypeError at the first part that is no \<open>str\<close>\<close>
  "join_parts parts =
     (case first_non_str 0 parts of
        None \<Rightarrow> Inr (py_join '' '' (str_parts parts))
      | Some (i, t) \<Rightarrow>
          Inl (TypeError (''sequence item '' @ str_nat i @ '': expected str instance, '' @ t
                          @ '' found'')))"

definition content_text :: "pyval \<Rightarrow> exn + string" where
  \<comment> \<open>lines 2772 to 2781; a \<open>VOther\<close> carries its \<open>str()\<close>\<close>
  "content_text c =
     (case c of
        VList items \<Rightarrow> join_parts (concat (map item_text_parts items))
      | VStr s \<Rightarrow> Inr s
      | VOther t s \<Rightarrow> Inr s)"

definition turn_text :: "message \<Rightarrow> exn + string" where
  \<comment> \<open>what one pass of the loop of lines 2762 to 2787 appends to \<open>conversation_text\<close>, after
      its check of the stop event\<close>
  "turn_text msg =
     (case msg of
        MOther \<Rightarrow> Inr []
      | MDict d \<Rightarrow>
          (case content_text (dict_get d ''content'' (VStr [])) of
             Inl e \<Rightarrow> Inl e
           | Inr c \<Rightarrow>
               if py_strip c \<noteq> []
               then (if dict_get d ''role'' (VStr ''user'') = VStr ''user''
                     then Inr (start_of_turn ''user'' c)
                     else Inr (start_of_turn ''model'' c))
               else Inr []))"

text \<open>The prompt in the words of the specification.\<close>

definition texts_are_str :: "message \<Rightarrow> bool" where
  \<comment> \<open>every text part of a list-valued content is a \<open>str\<close>\<close>
  "texts_are_str msg =
     (case msg of
        MDict d \<Rightarrow>
          (case dict_get d ''content'' (VStr []) of
             VList items \<Rightarrow> list_all (\<lambda>p. the_str p \<noteq> None) (concat (map item_text_parts items))
           | _ \<Rightarrow> True)
      | MOther \<Rightarrow> True)"

definition stringified_content :: "message \<Rightarrow> string" where
  \<comment> \<open>the content of a dict entry as text: list contents flattened to the space-joined
      text parts, other contents through \<open>str\<close>; a missing content is empty\<close>
  "stringified_content msg =
     (case msg of
        MDict d \<Rightarrow>
          (case dict_get d ''content'' (VStr []) of
             VList items \<Rightarrow> py_join '' '' (str_parts (concat (map item_text_parts items)))
           | VStr s \<Rightarrow> s
           | VOther t s \<Rightarrow> s)
      | MOther \<Rightarrow> [])"

definition contributes :: "message \<Rightarrow> bool" where
  \<comment> \<open>a dict entry whose stringified content is non-blank\<close>
  "contributes msg = (msg \<noteq> MOther \<and> py_strip (stringified_content msg) \<noteq> [])"

definition spec_turn :: "message \<Rightarrow> string" where
  "spec_turn msg =
     (case msg of
        MDict d \<Rightarrow>
          (if dict_get d ''role'' (VStr ''user'') = VStr ''user''
           then start_of_turn ''user'' (stringified_content msg)
           else start_of_turn ''model'' (stringified_content msg))
      | MOther \<Rightarrow> [])"

definition spec_prompt :: "message list \<Rightarrow> string" where
  "spec_prompt msgs = concat (map spec_turn (filter contributes msgs)) @ generation_prompt"

subsection \<open>The worker thread\<close>

datatype queue_msg =
  Chunk string  \<comment> \<open>\<open>('chunk', text)\<close>\<close>
| Complete  \<comment> \<open>\<open>('complete', None)\<close>\<close>
| Stopped  \<comment> \<open>\<open>('stopped', None)\<close>\<close>
| Error string  \<comment> \<open>\<open>('error', text)\<close>\<close>

datatype action =
  IsSet bool  \<comment> \<open>a call of \<open>stop_generation.is_set()\<close> and its answer\<close>
| Put queue_msg  \<comment> \<open>\<open>response_queue.put\<close>\<close>
| Tokenize string  \<comment> \<open>line 2804: the tokenizer is called on this prompt\<close>
| Generate  \<comment> \<open>line 2825: entry into \<open>model.generate\<close> with the streamer\<close>
| FallbackGenerate  \<comment> \<open>lines 2846 to 2881: the second attempt, without a streamer\<close>

text \<open>
  A run of the thread is the sequence of these actions. The event is set by the UI thread
  and never cleared: \<open>stop_at = Some k\<close> says that \<open>stop()\<close> happens when the worker has done
  \<open>k\<close> actions, \<open>None\<close> that it never happens. Each function takes the actions done so far
  and returns them extended.
\<close>

definition is_set :: "nat option \<Rightarrow> action list \<Rightarrow> bool" where
  "is_set stop_at tr = (case stop_at of None \<Rightarrow> False | Some k \<Rightarrow> k \<le> length tr)"

datatype 'a outcome = Returned | Raised exn | Value 'a

datatype callback =
  StreamerPut "string option"
    \<comment> \<open>\<open>streamer.put(value)\<close>; the text that \<open>TextStreamer.put\<close> passes on to
        \<open>on_finalized_text\<close>, if it makes that call\<close>
| StreamerEnd string  \<comment> \<open>\<open>streamer.end()\<close>, which calls \<open>on_finalized_text(text, stream_end=True)\<close>\<close>

text \<open>What the tokenizer and the model do; both are outside the repository.\<close>

record generation_env =
  model_ready :: bool  \<comment> \<open>\<open>self.model\<close> and \<open>self.tokenizer\<close> are both truthy\<close>
  tokenize :: "string \<Rightarrow> exn + bool"
    \<comment> \<open>lines 2799 to 2806 on the prompt: an exception, or whether \<open>input_ids\<close> is not \<open>None\<close>\<close>
  to_device :: "exn option"  \<comment> \<open>lines 2815 to 2817\<close>
  generate :: "string \<Rightarrow> callback list \<times> exn option"
    \<comment> \<open>\<open>model.generate\<close> with the streamer: its calls on the streamer, then what it raises\<close>
  fallback_generate :: "message list \<Rightarrow> exn + string option"
    \<comment> \<open>lines 2846 to 2881: the plain prompt, its tokenization, \<open>generate\<close> without a streamer
        and the decoding; the response text, or \<open>None\<close> when there is no output\<close>
  release :: "exn option"  \<comment> \<open>lines 2889 to 2896\<close>

definition exn_str :: "exn \<Rightarrow> string" where
  \<comment> \<open>\<open>str(e)\<close>; an exception kept without a message was raised without arguments\<close>
  "exn_str e = (case e of TypeError s \<Rightarrow> s | PyException s \<Rightarrow> s | _ \<Rightarrow> [])"

definition clean_text :: "string \<Rightarrow> string" where
  "clean_text text =
     py_replace ''<start_of_turn>'' []
       (py_replace ''<|endoftext|>'' []
          (py_replace ''<|end_of_text|>'' [] (py_replace ''<end_of_turn>'' [] text)))"

definition on_finalized_text :: "nat option \<Rightarrow> action list \<Rightarrow> string \<Rightarrow> action list" where
  "on_finalized_text k tr text =
     (if is_set k tr then tr @ [IsSet True]
      else let cleaned_text = clean_text text
           in if cleaned_text \<noteq> [] then tr @ [IsSet False, Put (Chunk cleaned_text)]
              else tr @ [IsSet False])"

definition streamer_put :: "nat option \<Rightarrow> action list \<Rightarrow> string option \<Rightarrow> action list" where
  \<comment> \<open>\<open>StreamCapture.put\<close>\<close>
  "streamer_put k tr v =
     (if is_set k tr then tr @ [IsSet True]
      else (case v of
              None \<Rightarrow> tr @ [IsSet False]
            | Some text \<Rightarrow> on_finalized_text k (tr @ [IsSet False]) text))"

fun stream_callbacks :: "nat option \<Rightarrow> action list \<Rightarrow> callback list \<Rightarrow> action list" where
  "stream_callbacks k tr [] = tr"
| "stream_callbacks k tr (StreamerPut v # cbs) = stream_callbacks k (streamer_put k tr v) cbs"
| "stream_callbacks k tr (StreamerEnd text # cbs) =
     stream_callbacks k (on_finalized_text k tr text) cbs"

fun conv_loop ::
  "nat option \<Rightarrow> action list \<Rightarrow> string \<Rightarrow> message list \<Rightarrow> string outcome \<times> action list" where
  \<comment> \<open>lines 2762 to 2787\<close>
  "conv_loop k tr acc [] = (Value acc, tr)"
| "conv_loop k tr acc (m # ms) =
     (if is_set k tr then (Returned, tr @ [IsSet True])
      else (case turn_text m of
              Inl e \<Rightarrow> (Raised e, tr @ [IsSet False])
            | Inr t \<Rightarrow> conv_loop k (tr @ [IsSet False]) (acc @ t) ms))"

definition stream_attempt ::
  "generation_env \<Rightarrow> nat option \<Rightarrow> action list \<Rightarrow> string \<Rightarrow> unit outcome \<times> action list" where
  \<comment> \<open>the body of the inner \<open>try\<close>, lines 2799 to 2838\<close>
  "stream_attempt env k tr conv =
     (let tr1 = tr @ [Tokenize conv]
      in case tokenize env conv of
           Inl e \<Rightarrow> (Raised e, tr1)
         | Inr present \<Rightarrow>
             if \<not> present
             then (if is_set k tr1 then (Returned, tr1 @ [IsSet True])
                   else (Raised (PyException ''Tokenization returned None''), tr1 @ [IsSet False]))
             else if is_set k tr1
             then (if is_set k (tr1 @ [IsSet True]) then (Returned, tr1 @ [IsSet True, IsSet True])
                   else (Raised (PyException ''Tokenization returned None''),
                         tr1 @ [IsSet True, IsSet False]))
             else
               let tr2 = tr1 @ [IsSet False]
               in (case to_device env of
                     Some e \<Rightarrow> (Raised e, tr2)
                   | None \<Rightarrow>
                       if is_set k tr2 then (Returned, tr2 @ [IsSet True])
                       else
                         let (cbs, raised) = generate env conv;
                             tr3 = stream_callbacks k (tr2 @ [IsSet False, Generate]) cbs
                         in (case raised of Some e \<Rightarrow> (Raised e, tr3) | None \<Rightarrow> (Value (), tr3))))"

definition fallback_attempt ::
  "generation_env \<Rightarrow> nat option \<Rightarrow> action list \<Rightarrow> exn \<Rightarrow> message list
     \<Rightarrow> unit outcome \<times> action list" where
  \<comment> \<open>the handler of the inner \<open>try\<close>, lines 2841 to 2887, for the exception \<open>manual_error\<close>\<close>
  "fallback_attempt env k tr manual_error msgs =
     (if is_set k tr then (Returned, tr @ [IsSet True])
      else
        let tr1 = tr @ [IsSet False, FallbackGenerate]
        in (case fallback_generate env msgs of
              Inl final_error \<Rightarrow>
                (Raised (if is_Exception final_error
                         then PyException (''All tokenization methods failed: ''
                                           @ exn_str manual_error @ '', ''
                                           @ exn_str final_error)
                         else final_error), tr1)
            | Inr None \<Rightarrow> (Value (), tr1)
            | Inr (Some response_text) \<Rightarrow>
                (Value (), if py_strip response_text \<noteq> [] then tr1 @ [Put (Chunk response_text)]
                           else tr1)))"

definition finish :: "generation_env \<Rightarrow> nat option \<Rightarrow> action list \<Rightarrow> unit outcome \<times> action list" where
  \<comment> \<open>lines 2889 to 2901\<close>
  "finish env k tr =
     (case release env of
        Some e \<Rightarrow> (Raised e, tr)
      | None \<Rightarrow>
          if \<not> is_set k tr then (Value (), tr @ [IsSet False, Put Complete])
          else (Value (), tr @ [IsSet True, Put Stopped]))"

definition run_body ::
  "generation_env \<Rightarrow> nat option \<Rightarrow> message list \<Rightarrow> unit outcome \<times> action list" where
  \<comment> \<open>the body of the outer \<open>try\<close>, lines 2754 to 2901\<close>
  "run_body env k msgs =
     (if is_set k [] then (Returned, [IsSet True])
      else if \<not> model_ready env
      then (Returned, [IsSet False, Put (Error ''Model or tokenizer not loaded'')])
      else
        (case conv_loop k [IsSet False] [] msgs of
           (Returned, tr) \<Rightarrow> (Returned, tr)
         | (Raised e, tr) \<Rightarrow> (Raised e, tr)
         | (Value acc, tr) \<Rightarrow>
             let conv = acc @ generation_prompt
             in if py_strip conv = []
                then (if \<not> is_set k tr
                      then (Returned, tr @ [IsSet False, Put (Error ''No valid messages to process'')])
                      else (Returned, tr @ [IsSet True]))
                else if is_set k tr
                then (if \<not> is_set k (tr @ [IsSet True])
                      then (Returned, tr @ [IsSet True, IsSet False,
                                            Put (Error ''No valid messages to process'')])
                      else (Returned, tr @ [IsSet True, IsSet True]))
                else
                  (case (case stream_attempt env k (tr @ [IsSet False]) conv of
                           (Raised e, tr2) \<Rightarrow>
                             if is_Exception e then fallback_attempt env k tr2 e msgs
                             else (Raised e, tr2)
                         | (Returned, tr2) \<Rightarrow> (Returned, tr2)
                         | (Value u, tr2) \<Rightarrow> (Value u, tr2)) of
                     (Value u, tr3) \<Rightarrow> finish env k tr3
                   | (Returned, tr3) \<Rightarrow> (Returned, tr3)
                   | (Raised e, tr3) \<Rightarrow> (Raised e, tr3))))"

definition run :: "generation_env \<Rightarrow> nat option \<Rightarrow> message list \<Rightarrow> action list" where
  \<comment> \<open>\<open>ModelThread.run\<close>: the outer handler catches \<open>Exception\<close>, lines 2903 to 2907\<close>
  "run env k msgs =
     (case run_body env k msgs of
        (Raised e, tr) \<Rightarrow>
          if is_Exception e
          then (if \<not> is_set k tr
                then tr @ [IsSet False, Put (Error (''Generation failed: '' @ exn_str e))]
                else tr @ [IsSet True])
          else tr
      | (Returned, tr) \<Rightarrow> tr
      | (Value u, tr) \<Rightarrow> tr)"

fun prompt_of :: "action list \<Rightarrow> string option" where
  \<comment> \<open>the prompt that a run hands to the tokenizer: the argument of its first
      \<open>Tokenize\<close>, if there is one\<close>
  "prompt_of [] = None"
| "prompt_of (Tokenize p # tr) = Some p"
| "prompt_of (a # tr) = prompt_of tr"

definition stop_after :: "nat option \<Rightarrow> nat \<Rightarrow> bool" where
  \<comment> \<open>\<open>stop()\<close> comes, if at all, when the worker has done more than \<open>n\<close> actions\<close>
  "stop_after stop_at n = (case stop_at of None \<Rightarrow> True | Some k \<Rightarrow> n < k)"

fun silent_from :: "nat \<Rightarrow> action list \<Rightarrow> bool" where
  \<comment> \<open>no \<open>Chunk\<close> and no \<open>Complete\<close> is put once \<open>k\<close> actions are done, that is, once the event
      is set\<close>
  "silent_from k [] = True"
| "silent_from k (Put (Chunk t) # tr) = (0 < k \<and> silent_from (k - 1) tr)"
| "silent_from k (Put Complete # tr) = (0 < k \<and> silent_from (k - 1) tr)"
| "silent_from k (a # tr) = silent_from (k - 1) tr"

subsection \<open>Concrete runs\<close>

definition hello_thread :: "message list" where
  "hello_thread = [role_content ''user'' ''hi'']"

definition streaming_env :: generation_env where
  \<comment> \<open>the streaming path works and yields "Hello" and " there"\<close>
  "streaming_env =
     \<lparr>model_ready = True, tokenize = (\<lambda>p. Inr True), to_device = None,
      generate = (\<lambda>p. ([StreamerPut None, StreamerPut (Some ''Hello''),
                         StreamerPut (Some '' there''), StreamerEnd []], None)),
      fallback_generate = (\<lambda>ms. Inr None), release = None\<rparr>"

definition fallback_env :: generation_env where
  \<comment> \<open>the tokenizer call of the streaming path raises; the fallback answers "Hello"\<close>
  "fallback_env =
     \<lparr>model_ready = True, tokenize = (\<lambda>p. Inl ValueError), to_device = None,
      generate = (\<lambda>p. ([], None)),
      fallback_generate = (\<lambda>ms. Inr (Some ''Hello'')), release = None\<rparr>"

definition bad_text_thread :: "message list" where
  \<comment> \<open>\<open>[{"role": "user", "content": [{"type": "text", "text": None}]}]\<close>\<close>
  "bad_text_thread =
     [MDict [(''role'', VStr ''user''),
             (''content'',
              VList [IDict [(''type'', VStr ''text''), (''text'', VOther ''NoneType'' ''None'')]])]]"

definition mixed_thread :: "message list" where
  \<comment> \<open>a user turn, a non-dict entry, a blank turn, a list-valued content and a content that
      is a number, under no role\<close>
  "mixed_thread =
     [role_content ''user'' ''hi'', MOther, role_content ''assistant'' '' '',
      MDict [(''role'', VStr ''assistant''),
             (''content'', VList [IStr ''a'', IDict [(''type'', VStr ''text''), (''text'', VStr ''b'')],
                                  IDict [(''type'', VStr ''image'')], IOther])],
      MDict [(''content'', VOther ''int'' ''42'')]]"

section \<open>Properties of the float model\<close>

declare bit_length.simps [simp del]










text \<open>The two clip lengths used below are the doubles that Python reads from the literals.\<close>

lemma float_literals:
  "round_double (48 / 100) = seconds_0_48 \<and> round_double (464 / 100) = seconds_4_64
   \<and> round_double (25 / 4) = 25 / 4"
  by code_simp

section \<open>Properties of TokenManager\<close>







section \<open>Properties of DocumentViewer\<close>

lemma viewer_inv_init: "1 \<le> n \<Longrightarrow> viewer_inv (DocumentViewer_init True n)"
  by (simp add: viewer_inv_def DocumentViewer_init_def)

lemma total_pages_op: "total_pages (apply_viewer_op v x) = total_pages v"
  by (cases x)
     (auto simp: prev_page_def next_page_def zoom_in_def zoom_out_def toggle_page_selection_def
        select_range_def clear_selection_def Let_def split: option.splits)

lemma viewer_inv_op:
  assumes "viewer_inv v" and "1 \<le> total_pages v"
  shows "viewer_inv (apply_viewer_op v x)"
proof (cases x)
  case PrevPage
  with assms show ?thesis by (auto simp: viewer_inv_def prev_page_def)
next
  case NextPage
  with assms show ?thesis by (auto simp: viewer_inv_def next_page_def)
next
  case ZoomIn
  with assms show ?thesis by (auto simp: viewer_inv_def zoom_in_def)
next
  case ZoomOut
  with assms show ?thesis by (auto simp: viewer_inv_def zoom_out_def)
next
  case TogglePageSelection
  with assms show ?thesis by (auto simp: viewer_inv_def toggle_page_selection_def Let_def)
next
  case (SelectRange a b)
  with assms show ?thesis
    by (auto simp: viewer_inv_def select_range_def Let_def split: option.splits)
next
  case ClearSelection
  with assms show ?thesis by (auto simp: viewer_inv_def clear_selection_def)
qed

lemma total_pages_foldl: "total_pages (foldl apply_viewer_op v ops) = total_pages v"
  by (induction ops arbitrary: v) (simp_all add: total_pages_op)

lemma viewer_inv_foldl:
  "viewer_inv v \<Longrightarrow> 1 \<le> total_pages v \<Longrightarrow> viewer_inv (foldl apply_viewer_op v ops)"
proof (induction ops arbitrary: v)
  case Nil
  then show ?case by simp
next
  case (Cons x ops)
  have "viewer_inv (apply_viewer_op v x)" using Cons.prems by (rule viewer_inv_op)
  moreover have "1 \<le> total_pages (apply_viewer_op v x)"
    using Cons.prems(2) by (simp add: total_pages_op)
  ultimately show ?case using Cons.IH by simp
qed

text \<open>
  C9. For a PDF with at least one page, every state reached from the initial one by the
  viewer's operations has \<open>0 \<le> current_page < total_pages\<close>, \<open>0.5 \<le> zoom_level \<le> 3.0\<close> and
  \<open>selected_pages\<close> within \<open>{1, ..., total_pages}\<close>.
\<close>

theorem viewer_invariant:
  assumes "1 \<le> n"
  shows "viewer_inv (foldl apply_viewer_op (DocumentViewer_init True n) ops)"
proof -
  have "1 \<le> total_pages (DocumentViewer_init True n)"
    using assms by (simp add: DocumentViewer_init_def)
  with viewer_inv_init [OF assms] show ?thesis by (rule viewer_inv_foldl)
qed

theorem viewer_invariant_witness:
  "(1::int) \<le> 3
   \<and> viewer_inv (foldl apply_viewer_op (DocumentViewer_init True 3)
        [NextPage, NextPage, NextPage, TogglePageSelection, ZoomIn, SelectRange (Some 0) (Some 9),
         PrevPage, ZoomOut, ClearSelection])"
  using viewer_invariant [of 3 "[NextPage, NextPage, NextPage, TogglePageSelection, ZoomIn,
         SelectRange (Some 0) (Some 9), PrevPage, ZoomOut, ClearSelection]"] by simp

section \<open>Properties of ModelManager\<close>

lemma try_except_all:
  "try_except b (\<lambda>e. True) (\<lambda>e. Inr x) = (case b of Inl e \<Rightarrow> Inr x | Inr r \<Rightarrow> Inr r)"
  by (simp add: try_except_def split: sum.splits)

text \<open>
  C6. \<open>load_config\<close> always returns: the parsed value when the file exists, opens and parses,
  and the default config when the file is missing, cannot be opened or is not JSON.
  \<open>save_config\<close> returns normally whatever \<open>Exception\<close> the write raises.
\<close>

theorem config_persistence:
  "(\<exists>v. load_config w = Inr v)
   \<and> (config_exists w \<and> config_open w = Inr t \<and> json_load w t = Inr v \<longrightarrow> load_config w = Inr v)
   \<and> (\<not> config_exists w \<or> (\<exists>e. config_open w = Inl e)
        \<or> (\<exists>t e. config_open w = Inr t \<and> json_load w t = Inl e)
      \<longrightarrow> load_config w
          = Inr (JObj [(''downloaded_models'', JArr []), (''last_used_model'', JNull),
                       (''offline_mode'', JBool False)]))
   \<and> ((\<forall>e. config_write w = Some e \<longrightarrow> is_Exception e) \<longrightarrow> save_config w = Inr ())"
proof (intro conjI impI)
  show "\<exists>v. load_config w = Inr v"
    by (simp add: load_config_def try_except_all split: sum.splits option.splits)
  show "load_config w = Inr v"
    if "config_exists w \<and> config_open w = Inr t \<and> json_load w t = Inr v"
    using that by (simp add: load_config_def try_except_all)
  show "load_config w
          = Inr (JObj [(''downloaded_models'', JArr []), (''last_used_model'', JNull),
                       (''offline_mode'', JBool False)])"
    if "\<not> config_exists w \<or> (\<exists>e. config_open w = Inl e)
        \<or> (\<exists>t e. config_open w = Inr t \<and> json_load w t = Inl e)"
    using that by (auto simp add: load_config_def try_except_all default_config_def)
  show "save_config w = Inr ()" if "\<forall>e. config_write w = Some e \<longrightarrow> is_Exception e"
    using that by (simp add: save_config_def try_except_def split: option.splits)
qed

theorem config_persistence_witness:
  "load_config corrupt_cache_world = Inr (JObj [])
   \<and> load_config empty_cache_world
       = Inr (JObj [(''downloaded_models'', JArr []), (''last_used_model'', JNull),
                    (''offline_mode'', JBool False)])
   \<and> config_write corrupt_cache_world = Some OSError
   \<and> save_config corrupt_cache_world = Inr ()"
  using config_persistence [of corrupt_cache_world "''{}''" "JObj []"]
    config_persistence [of empty_cache_world]
  by (simp add: corrupt_cache_world_def empty_cache_world_def is_Exception_def)

text \<open>
  The one gate that the startup loader has: in offline mode, with no directory for the last
  used model, it stops before \<open>load_model\<close> and logs only its own probes.
\<close>

lemma init_model_async_offline_gate:
  assumes "offline_mode (config mm)" and "last_used_model (config mm) = Some m" and "m \<noteq> []"
    and "\<not> fst (is_model_downloaded mm w m)"
  shows "fst (init_model_async mm w) = OfflineNoModel
       \<and> snd (snd (init_model_async mm w))
           = snd (is_online w) @ snd (is_model_downloaded mm w m)"
proof -
  obtain fx where d: "is_model_downloaded mm w m = (False, fx)"
    using assms(4) by (cases "is_model_downloaded mm w m") auto
  show ?thesis
    using assms(1-3) d by (simp add: init_model_async_def is_online_def Let_def)
qed

text \<open>
  C2. With \<open>offline_mode\<close> set, the startup loader still enters \<open>download_model\<close> and
  fetches from the hub when the local copy fails to load, and \<open>load_model\<close> does so when the
  model directory is missing.
\<close>

theorem offline_mode_reaches_download:
  "offline_mode (config (example_manager True))
   \<and> DownloadModelCalled ''unsloth/gemma-3n-E4B-it''
       \<in> set (snd (snd (init_model_async (example_manager True) corrupt_cache_world)))
   \<and> FromPretrained ''unsloth/gemma-3n-E4B-it''
       \<in> set (snd (snd (init_model_async (example_manager True) corrupt_cache_world)))
   \<and> snd (snd (load_model (example_manager True) empty_cache_world ''unsloth/gemma-3n-2B-it''))
       = [PathExists ''/home/user/.educational_ai_tutor/models/unsloth_gemma-3n-2B-it'',
          DownloadModelCalled ''unsloth/gemma-3n-2B-it'', UrlOpen ''https://huggingface.co'',
          FromPretrained ''unsloth/gemma-3n-2B-it'',
          SavePretrained ''/home/user/.educational_ai_tutor/models/unsloth_gemma-3n-2B-it'',
          WriteConfig]"
  by (simp add: init_model_async_def load_model_def load_local_model_def download_model_def
      is_online_def is_model_downloaded_def get_model_path_def safe_name_def py_replace_def
      os_path_join_def models_dir_of_def is_Exception_def save_config_def try_except_def
      backslash_def example_manager_def corrupt_cache_world_def empty_cache_world_def
      Let_def suffix_to_prefix)

lemma py_replace_aux_char:
  "py_replace_aux [a] [b] 0 s = map (\<lambda>c. if c = a then b else c) s"
  by (induction s) auto

lemma py_replace_char: "py_replace [a] [b] s = map (\<lambda>c. if c = a then b else c) s"
  by (simp add: py_replace_def py_replace_aux_char)

lemma safe_name_map:
  "safe_name n = map (\<lambda>c. if c = CHR ''/'' \<or> c = backslash then CHR ''_'' else c) n"
  by (simp add: safe_name_def py_replace_char backslash_def)

lemma safe_name_no_separator:
  "CHR ''/'' \<notin> set (safe_name n) \<and> backslash \<notin> set (safe_name n)"
  by (auto simp: safe_name_map backslash_def)

lemma split_on_nonempty: "split_on sep s \<noteq> []"
  by (induction s) (auto split: list.splits)

lemma split_on_no_sep: "sep \<notin> set s \<Longrightarrow> split_on sep s = [s]"
  by (induction s) auto

lemma split_on_append: "split_on sep (d @ sep # s) = split_on sep d @ split_on sep s"
  by (induction d) (auto split: list.splits simp: split_on_nonempty)

lemma path_components_child:
  assumes "CHR ''/'' \<notin> set s" "s \<noteq> []" "s \<noteq> ''.''" "s \<noteq> ''..''"
  shows "path_components (d @ ''/'' @ s) = path_components d @ [s]"
  using assms
  by (simp add: path_components_def split_on_append split_on_no_sep resolve_step_def)

lemma path_components_child_slash:
  assumes "CHR ''/'' \<notin> set s" "s \<noteq> []" "s \<noteq> ''.''" "s \<noteq> ''..''" "suffix ''/'' d"
  shows "path_components (d @ s) = path_components d @ [s]"
proof -
  from assms(5) obtain d' where d: "d = d' @ ''/''" by (auto simp: suffix_def)
  have "path_components (d' @ ''/'' @ s) = path_components d' @ [s]"
    using assms(1-4) by (rule path_components_child)
  moreover have "path_components (d' @ ''/'') = path_components d'"
    by (simp add: path_components_def split_on_append resolve_step_def)
  ultimately show ?thesis using d by simp
qed

text \<open>
  Away from the three names that are no directory entry of their own, the model path is one
  entry of the models directory.
\<close>

lemma get_model_path_single_child:
  assumes "safe_name n \<notin> {[], ''.'', ''..''}" "models_dir mm \<noteq> []"
  shows "single_child_of (models_dir mm) (get_model_path mm n)"
proof -
  let ?s = "safe_name n"
  have ns: "CHR ''/'' \<notin> set ?s" using safe_name_no_separator by simp
  then have np: "\<not> prefix ''/'' ?s" using assms(1) by (cases ?s) auto
  have "path_components (get_model_path mm n) = path_components (models_dir mm) @ [?s]"
  proof (cases "suffix ''/'' (models_dir mm)")
    case True
    then show ?thesis
      using np ns assms path_components_child_slash [of ?s "models_dir mm"]
      by (simp add: get_model_path_def os_path_join_def)
  next
    case False
    then show ?thesis
      using np ns assms path_components_child [of ?s "models_dir mm"]
      by (simp add: get_model_path_def os_path_join_def)
  qed
  then show ?thesis by (simp add: single_child_of_def)
qed

text \<open>
  C10. For the model name \<open>..\<close> the sanitised name is still \<open>..\<close>: the model path is the
  parent of the models directory, which \<open>is_model_downloaded\<close> inspects and \<open>delete_model\<close>
  removes.
\<close>

theorem model_path_escapes:
  "safe_name ''..'' = ''..''
   \<and> get_model_path (example_manager False) ''..'' = ''/home/user/.educational_ai_tutor/models/..''
   \<and> path_components (models_dir (example_manager False))
       = [''home'', ''user'', ''.educational_ai_tutor'', ''models'']
   \<and> path_components (get_model_path (example_manager False) ''..'')
       = [''home'', ''user'', ''.educational_ai_tutor'']
   \<and> \<not> single_child_of (models_dir (example_manager False))
         (get_model_path (example_manager False) ''..'')
   \<and> \<not> under_dir (models_dir (example_manager False))
         (get_model_path (example_manager False) ''..'')
   \<and> snd (is_model_downloaded (example_manager False) corrupt_cache_world ''..'')
       = [PathExists ''/home/user/.educational_ai_tutor/models/..'',
          PathIsdir ''/home/user/.educational_ai_tutor/models/..'']
   \<and> snd (snd (delete_model (example_manager False) corrupt_cache_world ''..''))
       = [PathExists ''/home/user/.educational_ai_tutor/models/..'',
          Rmtree ''/home/user/.educational_ai_tutor/models/..'', WriteConfig]"
  by (simp add: delete_model_def is_model_downloaded_def get_model_path_def safe_name_def
      py_replace_def os_path_join_def models_dir_of_def save_config_def try_except_def
      is_Exception_def backslash_def example_manager_def corrupt_cache_world_def Let_def
      path_components_def resolve_step_def single_child_of_def under_dir_def suffix_to_prefix)

section \<open>Properties of ChatbotApp.send_message\<close>

lemma add_audio_tokens_eq:
  assumes "audio_tokens_per_second tm = 25 / 4"
  shows "add_audio_tokens tm d acc a = acc + audio_tokens_of d a"
  unfolding add_audio_tokens_def audio_tokens_of_def count_audio_tokens_def assms
  by (simp split: attachment.splits option.splits)

lemma foldl_add_audio_tokens:
  assumes "audio_tokens_per_second tm = 25 / 4"
  shows "foldl (add_audio_tokens tm d) acc atts = acc + sum_list (map (audio_tokens_of d) atts)"
  by (induction atts arbitrary: acc) (simp_all add: add_audio_tokens_eq [OF assms])

text \<open>
  C1 (as amended). The total of \<open>calculate_total_input_tokens\<close> is the sum, with Python's \<open>+\<close>
  from left to right, of the tokens of the stripped input text, those of the stripped
  context, the \<open>sum\<close> of the token counts of the recent history, 256 for each image attachment,
  and for each audio attachment \<open>int(seconds * 6.25)\<close> in float arithmetic, or 100 when its
  duration cannot be read. When this total exceeds 32000, \<open>send_message\<close> leaves
  \<open>chat_history\<close>, the input, the attachments and the thread untouched and starts no thread,
  in every state; when in addition the model is loaded and no generation is running, all it
  does is show the "Token Limit Exceeded" error. A thread is started only when the total is
  at most 32000.
\<close>

theorem token_limit_guard:
  assumes "token_manager app = TokenManager_init enc"
  shows "calculate_total_input_tokens app d
         = py_add
             (py_add
                (py_add
                   (py_add
                      (count_text_tokens (token_manager app) (Some (py_strip (input_text app))))
                      (count_text_tokens (token_manager app)
                         (Some (py_strip (context_display app)))))
                   (py_sum (sum_compensated app)
                      (map tokens (recent_window (max_messages_of app) (chat_history app)))))
                (PyInt (256 * int (length (filter is_image (attachments app))))))
             (PyInt (sum_list (map (audio_tokens_of d) (attachments app))))
       \<and> (32000 < py_value (calculate_total_input_tokens app d) \<longrightarrow>
            chat_history (send_message app d) = chat_history app
            \<and> input_text (send_message app d) = input_text app
            \<and> attachments (send_message app d) = attachments app
            \<and> started_threads (send_message app d) = started_threads app
            \<and> current_generation_thread (send_message app d) = current_generation_thread app
            \<and> (model_loaded app \<and> \<not> is_generating app \<longrightarrow>
                 send_message app d
                   = app\<lparr>ui_log := ui_log app
                            @ [TokenLimitExceeded (calculate_total_input_tokens app d)]\<rparr>))
       \<and> (started_threads (send_message app d) \<noteq> started_threads app \<longrightarrow>
            py_value (calculate_total_input_tokens app d) \<le> 32000)"
proof -
  have tm: "audio_tokens_per_second (token_manager app) = 25 / 4"
    and im: "image_tokens (token_manager app) = 256"
    and mx: "max_context_tokens (token_manager app) = 32000"
    using assms by (simp_all add: TokenManager_init_def)
  have a: "calculate_total_input_tokens app d
         = py_add
             (py_add
                (py_add
                   (py_add
                      (count_text_tokens (token_manager app) (Some (py_strip (input_text app))))
                      (count_text_tokens (token_manager app)
                         (Some (py_strip (context_display app)))))
                   (py_sum (sum_compensated app)
                      (map tokens (recent_window (max_messages_of app) (chat_history app)))))
                (PyInt (256 * int (length (filter is_image (attachments app))))))
             (PyInt (sum_list (map (audio_tokens_of d) (attachments app))))"
    by (simp add: calculate_total_input_tokens_def Let_def recent_window_def
        count_image_tokens_def im foldl_add_audio_tokens [OF tm] mult.commute)
  have b: "chat_history (send_message app d) = chat_history app
         \<and> input_text (send_message app d) = input_text app
         \<and> attachments (send_message app d) = attachments app
         \<and> started_threads (send_message app d) = started_threads app
         \<and> current_generation_thread (send_message app d) = current_generation_thread app
         \<and> (model_loaded app \<and> \<not> is_generating app \<longrightarrow>
              send_message app d
                = app\<lparr>ui_log := ui_log app
                         @ [TokenLimitExceeded (calculate_total_input_tokens app d)]\<rparr>)"
    if "32000 < py_value (calculate_total_input_tokens app d)"
    using that by (simp add: send_message_def mx Let_def)
  have c: "py_value (calculate_total_input_tokens app d) \<le> 32000"
    if "started_threads (send_message app d) \<noteq> started_threads app"
  proof (rule ccontr)
    assume "\<not> py_value (calculate_total_input_tokens app d) \<le> 32000"
    then have "32000 < py_value (calculate_total_input_tokens app d)" by simp
    with b that show False by simp
  qed
  show ?thesis using a b c by blast
qed

theorem token_limit_guard_witness:
  "token_manager (over_limit_app True) = TokenManager_init (Some word_encoder)
   \<and> calculate_total_input_tokens (over_limit_app True) no_audio = PyInt 40257
   \<and> chat_history (send_message (over_limit_app True) no_audio) = chat_history (over_limit_app True)
   \<and> started_threads (send_message (over_limit_app True) no_audio) = []
   \<and> ui_log (send_message (over_limit_app True) no_audio) = [TokenLimitExceeded (PyInt 40257)]
   \<and> token_manager (audio_app 31971) = TokenManager_init (Some word_encoder)
   \<and> started_threads (send_message (audio_app 31971) (clip_of seconds_4_64))
       \<noteq> started_threads (audio_app 31971)
   \<and> calculate_total_input_tokens (audio_app 31971) (clip_of seconds_4_64) = PyInt 32000"
proof -
  have t: "calculate_total_input_tokens (over_limit_app True) no_audio = PyInt 40257"
    by code_simp
  have tm: "token_manager (over_limit_app True) = TokenManager_init (Some word_encoder)"
    by (simp add: over_limit_app_def example_app_def)
  have l: "model_loaded (over_limit_app True) \<and> \<not> is_generating (over_limit_app True)"
    by (simp add: over_limit_app_def example_app_def)
  have s: "started_threads (over_limit_app True) = [] \<and> ui_log (over_limit_app True) = []"
    by (simp add: over_limit_app_def example_app_def)
  have tm2: "token_manager (audio_app 31971) = TokenManager_init (Some word_encoder)"
    by (simp add: audio_app_def example_app_def)
  have st: "started_threads (send_message (audio_app 31971) (clip_of seconds_4_64))
              \<noteq> started_threads (audio_app 31971)"
    by code_simp
  have t2: "calculate_total_input_tokens (audio_app 31971) (clip_of seconds_4_64) = PyInt 32000"
    by code_simp
  have g1: "32000 < py_value (calculate_total_input_tokens (over_limit_app True) no_audio)"
    using t by simp
  have g2: "py_value (calculate_total_input_tokens (audio_app 31971) (clip_of seconds_4_64))
              \<le> 32000"
    using token_limit_guard [OF tm2, of "clip_of seconds_4_64"] st by blast
  show ?thesis
    using token_limit_guard [OF tm, of no_audio] g1 g2 t t2 l s tm tm2 st by simp
qed

text \<open>
  The claim as stated fails in three places. Where an earlier guard answers: with the model
  not yet loaded and a total above 32000 the only dialog is the "Model Loading" warning.
  Where the duration of an audio file cannot be read: the file counts 100 tokens. Where the
  float product rounds up to an integer: for a clip of 0.48 seconds the total is
  \<open>1 + 3\<close>, while \<open>floor(6.25 * seconds)\<close> is 2.
\<close>

theorem token_limit_counterexample:
  "32000 < py_value (calculate_total_input_tokens (over_limit_app False) no_audio)
   \<and> ui_log (send_message (over_limit_app False) no_audio) = [Warning ''Model Loading'']
   \<and> attachments (audio_app 0) = [AudioAttachment ''/tmp/clip.wav'']
   \<and> no_audio ''/tmp/clip.wav'' = None
   \<and> calculate_total_input_tokens (audio_app 0) no_audio = PyInt 101
   \<and> clip_of seconds_0_48 ''/tmp/clip.wav'' = Some seconds_0_48
   \<and> calculate_total_input_tokens (audio_app 0) (clip_of seconds_0_48) = PyInt 4
   \<and> \<lfloor>(25 / 4) * seconds_0_48\<rfloor> = 2"
  by code_simp

lemma history_messages_filter:
  "history_messages xs
     = map (\<lambda>e. role_content (role e) (content e)) (filter (\<lambda>e. py_strip (content e) \<noteq> []) xs)"
  by (induction xs) (simp_all add: history_messages_def)

lemma set_py_slice_from: "set (py_slice_from k xs) \<subseteq> set xs"
  by (auto simp: py_slice_from_def dest: in_set_dropD)

lemma set_recent_window: "set (recent_window n xs) \<subseteq> set xs"
  by (auto simp: recent_window_def dest: subsetD [OF set_py_slice_from])

lemma recent_window_positive: "0 < n \<Longrightarrow> recent_window n xs = drop (length xs - nat n) xs"
  by (auto simp: recent_window_def py_slice_from_def nat_diff_distrib')

lemma build_messages_eq:
  "full \<noteq> [] \<Longrightarrow>
   build_messages app text full
     = history_messages (recent_window (max_messages_of app) (butlast (chat_history app)))
       @ [role_content ''user'' full]"
  by (simp add: build_messages_def recent_window_def Let_def)

lemma full_message_nonempty:
  "text \<noteq> [] \<or> context_text \<noteq> [] \<Longrightarrow> full_message_of text context_text \<noteq> []"
  by (auto simp: full_message_of_def)

lemma send_message_cases:
  "started_threads (send_message app d) = started_threads app
   \<or> (started_threads (send_message app d) = started_threads app @ [sent_thread app]
      \<and> attachments (send_message app d) = []
      \<and> (attachments app \<noteq> [] \<longrightarrow>
           AttachmentsNotSent (length (attachments app)) \<in> set (ui_log (send_message app d))))"
  by (auto simp: send_message_def Let_def sent_thread_def build_messages_eq full_message_nonempty
      add_message_def max_messages_of_def)

text \<open>
  At a total of at most 32000 the message is sent: with the model loaded, no generation
  running and a text or a context, the thread is started.
\<close>

lemma send_message_starts:
  assumes "token_manager app = TokenManager_init enc"
    and "py_value (calculate_total_input_tokens app d) \<le> 32000"
    and "model_loaded app" and "\<not> is_generating app"
    and "py_strip (input_text app) \<noteq> [] \<or> py_strip (context_display app) \<noteq> []"
  shows "started_threads (send_message app d) = started_threads app @ [sent_thread app]"
proof -
  have mx: "max_context_tokens (token_manager app) = 32000"
    using assms(1) by (simp add: TokenManager_init_def)
  have g: "\<not> 32000 < py_value (calculate_total_input_tokens app d)" using assms(2) by simp
  show ?thesis
    using assms(3-5) g
    by (auto simp: send_message_def mx Let_def sent_thread_def build_messages_eq
        full_message_nonempty add_message_def max_messages_of_def)
qed

lemma sent_thread_attachments: "sent_thread (app\<lparr>attachments := a\<rparr>) = sent_thread app"
  by (simp add: sent_thread_def max_messages_of_def)

text \<open>
  With a positive history size the thread gets the non-blank entries among the last
  \<open>max_messages\<close> entries of the history, in order, and then the new user message.
\<close>

lemma send_message_window:
  assumes "0 < max_messages_of app"
    and "started_threads (send_message app d) \<noteq> started_threads app"
  shows "started_threads (send_message app d)
         = started_threads app
           @ [\<lparr>messages =
                 map (\<lambda>e. role_content (role e) (content e))
                   (filter (\<lambda>e. py_strip (content e) \<noteq> [])
                      (drop (length (chat_history app) - nat (max_messages_of app))
                         (chat_history app)))
                 @ [role_content ''user''
                      (full_message_of (py_strip (input_text app))
                         (py_strip (context_display app)))],
               max_tokens = max_output_tokens app\<rparr>]"
  using assms send_message_cases [of app d]
  by (simp add: sent_thread_def history_messages_filter recent_window_positive)

text \<open>
  C5 (as amended). A \<open>send_message\<close> that starts a thread empties \<open>self.attachments\<close>, reports
  their number in a note, and starts the same thread whatever the attachments were: each
  message of the thread is the role and content of a history entry, or the new user message
  made of the typed text and the context.
\<close>

theorem attachments_not_sent:
  assumes "started_threads (send_message app d) \<noteq> started_threads app"
  shows "\<exists>th. started_threads (send_message app d) = started_threads app @ [th]
     \<and> attachments (send_message app d) = []
     \<and> (attachments app \<noteq> [] \<longrightarrow>
          AttachmentsNotSent (length (attachments app)) \<in> set (ui_log (send_message app d)))
     \<and> (\<forall>a th'. started_threads (send_message (app\<lparr>attachments := a\<rparr>) d)
                   = started_threads app @ [th']
          \<longrightarrow> th' = th)
     \<and> (\<forall>m \<in> set (messages th).
          m = role_content ''user''
                (full_message_of (py_strip (input_text app)) (py_strip (context_display app)))
          \<or> (\<exists>e \<in> set (chat_history app). m = role_content (role e) (content e)))"
proof -
  have 1: "started_threads (send_message app d) = started_threads app @ [sent_thread app]"
    and 2: "attachments (send_message app d) = []"
    and 3: "attachments app \<noteq> [] \<longrightarrow>
           AttachmentsNotSent (length (attachments app)) \<in> set (ui_log (send_message app d))"
    using assms send_message_cases [of app d] by auto
  have 4: "th' = sent_thread app"
    if "started_threads (send_message (app\<lparr>attachments := a\<rparr>) d) = started_threads app @ [th']"
    for a th'
    using that send_message_cases [of "app\<lparr>attachments := a\<rparr>" d]
    by (auto simp: sent_thread_attachments)
  have 5: "m = role_content ''user''
                (full_message_of (py_strip (input_text app)) (py_strip (context_display app)))
          \<or> (\<exists>e \<in> set (chat_history app). m = role_content (role e) (content e))"
    if "m \<in> set (messages (sent_thread app))" for m
    using that set_recent_window [of "max_messages_of app" "chat_history app"]
    by (auto simp: sent_thread_def history_messages_filter)
  show ?thesis using 1 2 3 4 5 by blast
qed

theorem attachments_not_sent_witness:
  "started_threads (send_message (example_app (Some 10)) no_audio)
     \<noteq> started_threads (example_app (Some 10))
   \<and> attachments (send_message (example_app (Some 10)) no_audio) = []
   \<and> AttachmentsNotSent 1 \<in> set (ui_log (send_message (example_app (Some 10)) no_audio))"
proof -
  have p: "started_threads (send_message (example_app (Some 10)) no_audio)
             \<noteq> started_threads (example_app (Some 10))"
    by code_simp
  have a: "attachments (example_app (Some 10)) = [ImageAttachment ''/tmp/a.png'']"
    by (simp add: example_app_def)
  show ?thesis using attachments_not_sent [OF p] p a by auto
qed

text \<open>
  The claim as stated fails: the queued image is in no message of the thread that is started.
\<close>

theorem attachment_included_counterexample:
  "attachments (example_app (Some 10)) = [ImageAttachment ''/tmp/a.png'']
   \<and> started_threads (send_message (example_app (Some 10)) no_audio)
       = [\<lparr>messages = [role_content ''user'' ''one'', role_content ''assistant'' ''two'',
                       role_content ''user'' ''three'', role_content ''user'' ''hi''],
           max_tokens = 512\<rparr>]
   \<and> \<not> attachment_included (ImageAttachment ''/tmp/a.png'')
         [role_content ''user'' ''one'', role_content ''assistant'' ''two'',
          role_content ''user'' ''three'', role_content ''user'' ''hi'']"
  by code_simp

text \<open>
  C8. With the history size set to 0 the window \<open>recent_history[-0:]\<close> is the whole history:
  all three earlier entries are sent, where the claim allows none. With \<open>-1\<close> all but the
  first are sent.
\<close>

theorem history_window_zero_setting:
  "max_messages_of (example_app (Some 0)) = 0
   \<and> map messages (started_threads (send_message (example_app (Some 0)) no_audio))
       = [[role_content ''user'' ''one'', role_content ''assistant'' ''two'',
           role_content ''user'' ''three'', role_content ''user'' ''hi'']]
   \<and> map messages (started_threads (send_message (example_app (Some (- 1))) no_audio))
       = [[role_content ''assistant'' ''two'', role_content ''user'' ''three'',
           role_content ''user'' ''hi'']]"
  by code_simp

section \<open>Properties of ModelThread.run\<close>

lemma first_non_str_none:
  "list_all (\<lambda>p. the_str p \<noteq> None) ps \<Longrightarrow> first_non_str i ps = None"
  by (induction ps arbitrary: i) auto

lemma turn_text_spec:
  "texts_are_str m \<Longrightarrow> turn_text m = Inr (if contributes m then spec_turn m else [])"
  by (auto simp: turn_text_def texts_are_str_def contributes_def spec_turn_def
      stringified_content_def content_text_def join_parts_def first_non_str_none
      split: message.splits pyval.splits)

lemma stop_after_clear: "stop_after k n \<Longrightarrow> length tr \<le> n \<Longrightarrow> \<not> is_set k tr"
  by (auto simp: stop_after_def is_set_def split: option.splits)

text \<open>
  While the event is clear, the loop checks it once for each message and appends the turns
  of the messages that contribute.
\<close>

lemma conv_loop_clear:
  "list_all texts_are_str ms \<Longrightarrow> stop_after k (length tr + length ms) \<Longrightarrow>
   conv_loop k tr acc ms
     = (Value (acc @ concat (map spec_turn (filter contributes ms))),
        tr @ replicate (length ms) (IsSet False))"
proof (induction ms arbitrary: tr acc)
  case Nil
  then show ?case by simp
next
  case (Cons m ms)
  have c: "\<not> is_set k tr" using Cons.prems(2) by (rule stop_after_clear) simp
  have s: "stop_after k (length (tr @ [IsSet False]) + length ms)" using Cons.prems(2) by simp
  have t: "list_all texts_are_str ms" and m: "texts_are_str m" using Cons.prems(1) by simp_all
  show ?case
    using Cons.IH [OF t s] c
    by (simp add: turn_text_spec [OF m] replicate_app_Cons_same)
qed

lemma py_strip_nonblank:
  assumes "c \<in> set s" and "\<not> is_space c"
  shows "py_strip s \<noteq> []"
proof -
  let ?d = "dropWhile is_space s"
  have d: "?d \<noteq> []" using assms by (auto simp: dropWhile_eq_Nil_conv)
  then have "\<not> is_space (hd ?d)" by (rule hd_dropWhile)
  moreover have "hd ?d \<in> set (rev ?d)" using d by simp
  ultimately have "dropWhile is_space (rev ?d) \<noteq> []"
    by (auto simp: dropWhile_eq_Nil_conv simp del: set_rev)
  then show ?thesis by (simp add: py_strip_def)
qed

lemma conversation_nonblank: "py_strip (acc @ generation_prompt) \<noteq> []"
  by (rule py_strip_nonblank [of "CHR ''<''"]) (simp_all add: generation_prompt_def is_space_def)

lemma on_finalized_text_extends: "prefix tr (on_finalized_text k tr text)"
  by (simp add: on_finalized_text_def Let_def)

lemma streamer_put_extends: "prefix tr (streamer_put k tr v)"
  using on_finalized_text_extends [of "tr @ [IsSet False]" k]
  by (auto simp: streamer_put_def split: option.splits dest: append_prefixD)

lemma stream_callbacks_extends: "prefix tr (stream_callbacks k tr cbs)"
proof (induction k tr cbs rule: stream_callbacks.induct)
  case (1 k tr)
  then show ?case by simp
next
  case (2 k tr v cbs)
  then show ?case using streamer_put_extends [of tr k v] by (auto intro: prefix_order.trans)
next
  case (3 k tr t cbs)
  then show ?case using on_finalized_text_extends [of tr k t] by (auto intro: prefix_order.trans)
qed

lemma stream_attempt_tokenizes:
  "prefix (tr @ [Tokenize conv]) (snd (stream_attempt env k tr conv))"
proof -
  have "prefix (tr @ [Tokenize conv])
          (stream_callbacks k (tr @ [Tokenize conv, IsSet False, IsSet False, Generate]) cbs)"
    for cbs
    using stream_callbacks_extends
            [of "tr @ [Tokenize conv, IsSet False, IsSet False, Generate]" k cbs]
    by (auto simp: prefix_def)
  then show ?thesis
    by (auto simp: stream_attempt_def Let_def split: sum.splits option.splits prod.splits)
qed

lemma fallback_attempt_extends: "prefix tr (snd (fallback_attempt env k tr e msgs))"
  by (auto simp: fallback_attempt_def Let_def split: sum.splits option.splits)

lemma finish_extends: "prefix tr (snd (finish env k tr))"
  by (auto simp: finish_def split: option.splits)

lemma prompt_of_first:
  "prefix (replicate n (IsSet False) @ [Tokenize p]) tr \<Longrightarrow> prompt_of tr = Some p"
  by (induction n arbitrary: tr) (auto simp: prefix_def)


lemma replicate_two_more: "replicate (n + 2) x @ ys = replicate (n + 1) x @ x # ys"
  by (induction n) simp_all

lemma run_body_tokenizes:
  assumes "model_ready env" and "stop_after k (length msgs + 1)"
    and "list_all texts_are_str msgs"
  shows "prefix (replicate (length msgs + 1) (IsSet False) @ [IsSet False, Tokenize (spec_prompt msgs)])
           (snd (run_body env k msgs))"
proof -
  let ?tr = "replicate (length msgs + 1) (IsSet False)"
  let ?conv = "spec_prompt msgs"
  let ?goal = "?tr @ [IsSet False, Tokenize ?conv]"
  have z: "\<not> is_set k []" using assms(2) by (rule stop_after_clear) simp
  have loop: "conv_loop k [IsSet False] [] msgs
                = (Value (concat (map spec_turn (filter contributes msgs))), ?tr)"
    using conv_loop_clear [OF assms(3), of k "[IsSet False]" "[]"] assms(2) by simp
  have c: "\<not> is_set k ?tr" using assms(2) by (rule stop_after_clear) simp
  have nb: "py_strip ?conv \<noteq> []" by (simp add: spec_prompt_def conversation_nonblank)
  obtain r2 tr2 where att: "stream_attempt env k (?tr @ [IsSet False]) ?conv = (r2, tr2)"
    by (cases "stream_attempt env k (?tr @ [IsSet False]) ?conv")
  have p2: "prefix ?goal tr2"
    using stream_attempt_tokenizes [of "?tr @ [IsSet False]" ?conv env k] att by simp
  have fb: "prefix ?goal (snd (fallback_attempt env k tr2 e msgs))" for e
    using p2 fallback_attempt_extends [of tr2 env k e msgs] by (rule prefix_order.trans)
  have fin: "prefix ?goal (snd (finish env k tr3))" if "prefix ?goal tr3" for tr3
    using that finish_extends [of tr3 env k] by (rule prefix_order.trans)
  have body: "run_body env k msgs
     = (case (case (r2, tr2) of
                (Raised e, tr2) \<Rightarrow>
                  if is_Exception e then fallback_attempt env k tr2 e msgs else (Raised e, tr2)
              | (Returned, tr2) \<Rightarrow> (Returned, tr2)
              | (Value u, tr2) \<Rightarrow> (Value u, tr2)) of
          (Value u, tr3) \<Rightarrow> finish env k tr3
        | (Returned, tr3) \<Rightarrow> (Returned, tr3)
        | (Raised e, tr3) \<Rightarrow> (Raised e, tr3))"
    using assms(1) z loop c nb att by (simp add: run_body_def spec_prompt_def)
  show ?thesis
  proof (cases r2)
    case Returned
    then show ?thesis using p2 by (simp add: body)
  next
    case (Value u)
    then show ?thesis using fin [OF p2] by (simp add: body)
  next
    case (Raised e)
    show ?thesis
    proof (cases "is_Exception e")
      case False
      then show ?thesis using Raised p2 by (simp add: body)
    next
      case True
      obtain r3 tr3 where f: "fallback_attempt env k tr2 e msgs = (r3, tr3)"
        by (cases "fallback_attempt env k tr2 e msgs")
      have p3: "prefix ?goal tr3" using fb [of e] f by simp
      show ?thesis using Raised True f p3 fin [OF p3] by (cases r3) (simp_all add: body)
    qed
  qed
qed

lemma run_extends_body: "prefix (snd (run_body env k msgs)) (run env k msgs)"
  by (auto simp: run_def split: prod.splits outcome.splits)

text \<open>
  C4 (as amended). When the model and the tokenizer are loaded, the stop event stays clear
  until the prompt is complete, and every text part of a list-valued content is a \<open>str\<close>,
  then \<open>run\<close> checks the event once at its start, once for each message and once after the
  loop, and then calls the tokenizer on the prompt of the specification: the concatenation,
  in order, over the dict entries whose stringified content is non-blank, of the user turn
  (role equal to \<open>user\<close>) or the model turn (any other role), followed by the final
  \<open><start_of_turn>model\<close> line.
\<close>

theorem prompt_construction:
  assumes "model_ready env" and "stop_after stop_at (length msgs + 1)"
    and "list_all texts_are_str msgs"
  shows "prefix (replicate (length msgs + 2) (IsSet False) @ [Tokenize (spec_prompt msgs)])
           (run env stop_at msgs)
       \<and> prompt_of (run env stop_at msgs) = Some (spec_prompt msgs)"
proof -
  have "prefix (replicate (length msgs + 2) (IsSet False) @ [Tokenize (spec_prompt msgs)])
          (snd (run_body env stop_at msgs))"
    using run_body_tokenizes [OF assms] by (simp only: replicate_two_more)
  then have p: "prefix (replicate (length msgs + 2) (IsSet False) @ [Tokenize (spec_prompt msgs)])
                  (run env stop_at msgs)"
    using run_extends_body [of env stop_at msgs] by (rule prefix_order.trans)
  then show ?thesis using prompt_of_first by blast
qed

theorem prompt_construction_witness:
  "model_ready streaming_env \<and> stop_after None (length mixed_thread + 1)
   \<and> list_all texts_are_str mixed_thread
   \<and> spec_prompt mixed_thread
       = ''<start_of_turn>user'' @ [newline] @ ''hi<end_of_turn>'' @ [newline]
         @ ''<start_of_turn>model'' @ [newline] @ ''a b<end_of_turn>'' @ [newline]
         @ ''<start_of_turn>user'' @ [newline] @ ''42<end_of_turn>'' @ [newline]
         @ ''<start_of_turn>model'' @ [newline]
   \<and> prompt_of (run streaming_env None mixed_thread) = Some (spec_prompt mixed_thread)
   \<and> stop_after (Some 7) (length mixed_thread + 1)
   \<and> prompt_of (run streaming_env (Some 7) mixed_thread) = Some (spec_prompt mixed_thread)"
proof -
  have a: "model_ready streaming_env" by (simp add: streaming_env_def)
  have b: "stop_after None (length mixed_thread + 1)" by (simp add: stop_after_def)
  have b': "stop_after (Some 7) (length mixed_thread + 1)"
    by (simp add: stop_after_def mixed_thread_def)
  have c: "list_all texts_are_str mixed_thread" by code_simp
  have d: "spec_prompt mixed_thread
       = ''<start_of_turn>user'' @ [newline] @ ''hi<end_of_turn>'' @ [newline]
         @ ''<start_of_turn>model'' @ [newline] @ ''a b<end_of_turn>'' @ [newline]
         @ ''<start_of_turn>user'' @ [newline] @ ''42<end_of_turn>'' @ [newline]
         @ ''<start_of_turn>model'' @ [newline]"
    by code_simp
  show ?thesis
    using prompt_construction [OF a b c] prompt_construction [OF a b' c] a b b' c d by simp
qed

text \<open>
  The claim as stated fails in three places: on a text part that is not a \<open>str\<close> the join
  raises and the thread reports the error; with the event set at the start the thread
  returns at once; without a model it reports that. In none of them a prompt is built.
\<close>

theorem prompt_counterexample:
  "run streaming_env None bad_text_thread
     = [IsSet False, IsSet False, IsSet False,
        Put (Error ''Generation failed: sequence item 0: expected str instance, NoneType found'')]
   \<and> prompt_of (run streaming_env None bad_text_thread) = None
   \<and> run streaming_env (Some 0) hello_thread = [IsSet True]
   \<and> prompt_of (run streaming_env (Some 0) hello_thread) = None
   \<and> run (streaming_env\<lparr>model_ready := False\<rparr>) None hello_thread
       = [IsSet False, Put (Error ''Model or tokenizer not loaded'')]
   \<and> prompt_of (run (streaming_env\<lparr>model_ready := False\<rparr>) None hello_thread) = None"
  by code_simp

lemma silent_from_append:
  "silent_from n (xs @ ys) = (silent_from n xs \<and> silent_from (n - length xs) ys)"
  by (induction n xs rule: silent_from.induct) auto

lemma silent_check:
  "silent_from (Suc j) tr \<Longrightarrow> silent_from (Suc j) (tr @ [IsSet b])"
  by (simp add: silent_from_append)

lemma silent_guarded_put:
  "silent_from (Suc j) tr \<Longrightarrow> \<not> is_set (Some j) tr \<Longrightarrow>
   silent_from (Suc j) (tr @ [IsSet False, Put m])"
  by (cases m) (auto simp: silent_from_append is_set_def)

lemma silent_on_finalized_text:
  "silent_from (Suc j) tr \<Longrightarrow> silent_from (Suc j) (on_finalized_text (Some j) tr t)"
  by (simp add: on_finalized_text_def Let_def silent_check silent_guarded_put)

lemma silent_streamer_put:
  "silent_from (Suc j) tr \<Longrightarrow> silent_from (Suc j) (streamer_put (Some j) tr v)"
  by (simp add: streamer_put_def silent_check silent_on_finalized_text split: option.splits)

lemma silent_stream_callbacks:
  "silent_from (Suc j) tr \<Longrightarrow> silent_from (Suc j) (stream_callbacks (Some j) tr cbs)"
proof (induction cbs arbitrary: tr)
  case Nil
  then show ?case by simp
next
  case (Cons cb cbs)
  then show ?case
    by (cases cb) (simp_all add: silent_streamer_put silent_on_finalized_text)
qed

lemma silent_conv_loop:
  "silent_from (Suc j) tr \<Longrightarrow> silent_from (Suc j) (snd (conv_loop (Some j) tr acc ms))"
proof (induction ms arbitrary: tr acc)
  case Nil
  then show ?case by simp
next
  case (Cons m ms)
  then show ?case by (auto simp: silent_check split: sum.splits)
qed

lemma silent_action:
  "silent_from (Suc j) tr \<Longrightarrow> a \<in> {Tokenize p, Generate, FallbackGenerate} \<Longrightarrow>
   silent_from (Suc j) (tr @ [a])"
  by (auto simp: silent_from_append)

lemma silent_stream_attempt:
  assumes "silent_from (Suc j) tr"
  shows "silent_from (Suc j) (snd (stream_attempt env (Some j) tr conv))"
proof -
  let ?tr1 = "tr @ [Tokenize conv]"
  have 1: "silent_from (Suc j) ?tr1" using assms by (rule silent_action) simp
  have 2: "silent_from (Suc j) (?tr1 @ [IsSet b])" for b using 1 by (rule silent_check)
  have 3: "silent_from (Suc j) (?tr1 @ [IsSet b, IsSet c])" for b c
    using silent_check [OF 2, of b c] by simp
  have 4: "silent_from (Suc j) (stream_callbacks (Some j) (?tr1 @ [IsSet False, IsSet False, Generate]) cbs)"
    for cbs
  proof -
    have "silent_from (Suc j) ((?tr1 @ [IsSet False, IsSet False]) @ [Generate])"
      using 3 [of False False] by (rule silent_action) simp
    then show ?thesis using silent_stream_callbacks by simp
  qed
  show ?thesis
    using 1 2 3 4
    by (auto simp: stream_attempt_def Let_def split: sum.splits option.splits prod.splits)
qed

lemma silent_fallback_attempt:
  assumes "silent_from (Suc j) tr"
    and "\<forall>t. fallback_generate env msgs = Inr (Some t) \<longrightarrow> py_strip t = []"
  shows "silent_from (Suc j) (snd (fallback_attempt env (Some j) tr e msgs))"
proof -
  have "silent_from (Suc j) ((tr @ [IsSet False]) @ [FallbackGenerate])"
    using silent_check [OF assms(1), of False] by (rule silent_action) simp
  then have "silent_from (Suc j) (tr @ [IsSet False, FallbackGenerate])" by simp
  then show ?thesis
    using assms silent_check [OF assms(1), of True]
    by (auto simp: fallback_attempt_def Let_def split: sum.splits option.splits)
qed

lemma silent_finish:
  assumes "silent_from (Suc j) tr"
  shows "silent_from (Suc j) (snd (finish env (Some j) tr))"
proof -
  have "silent_from (Suc j) (tr @ [IsSet True, Put Stopped])"
    using assms by (simp add: silent_from_append)
  then show ?thesis
    using assms silent_guarded_put [OF assms, of Complete]
    by (auto simp: finish_def split: option.splits)
qed

lemma silent_run_body:
  assumes "\<forall>t. fallback_generate env msgs = Inr (Some t) \<longrightarrow> py_strip t = []"
  shows "silent_from (Suc j) (snd (run_body env (Some j) msgs))"
proof (cases "is_set (Some j) [] \<or> \<not> model_ready env")
  case True
  then show ?thesis by (auto simp: run_body_def)
next
  case False
  obtain r tr where loop: "conv_loop (Some j) [IsSet False] [] msgs = (r, tr)"
    by (cases "conv_loop (Some j) [IsSet False] [] msgs")
  have c: "silent_from (Suc j) tr"
    using silent_conv_loop [of j "[IsSet False]" "[]" msgs] loop by simp
  show ?thesis
  proof (cases r)
    case Returned
    then show ?thesis using False loop c by (simp add: run_body_def)
  next
    case (Raised e)
    then show ?thesis using False loop c by (simp add: run_body_def)
  next
    case (Value acc)
    let ?conv = "acc @ generation_prompt"
    have early: "silent_from (Suc j) (tr @ [IsSet True])" using c by (rule silent_check)
    have early2: "silent_from (Suc j) (tr @ [IsSet True, IsSet True])"
      using silent_check [OF early, of True] by simp
    have err: "silent_from (Suc j) (tr @ [IsSet False, Put (Error m)])" for m
      using c by (simp add: silent_from_append)
    have err2: "silent_from (Suc j) (tr @ [IsSet True, IsSet False, Put (Error m)])" for m
      using c by (simp add: silent_from_append)
    obtain r2 tr2 where att: "stream_attempt env (Some j) (tr @ [IsSet False]) ?conv = (r2, tr2)"
      by (cases "stream_attempt env (Some j) (tr @ [IsSet False]) ?conv")
    have c2: "silent_from (Suc j) tr2"
      using silent_stream_attempt [OF silent_check [OF c, of False], of env ?conv] att by simp
    have c3: "silent_from (Suc j) (snd (fallback_attempt env (Some j) tr2 e msgs))" for e
      using c2 assms by (rule silent_fallback_attempt)
    have f2: "silent_from (Suc j) (snd (finish env (Some j) tr2))"
      using c2 by (rule silent_finish)
    have f3: "silent_from (Suc j) (snd (finish env (Some j) tr3))"
      if "fallback_attempt env (Some j) tr2 e msgs = (r3, tr3)" for e r3 tr3
      using silent_finish [of j tr3 env] c3 [of e] that by simp
    have c3': "silent_from (Suc j) tr3"
      if "fallback_attempt env (Some j) tr2 e msgs = (r3, tr3)" for e r3 tr3
      using c3 [of e] that by simp
    show ?thesis
      using False loop Value early early2 err err2 att c2 c3' f2 f3
      by (auto simp: run_body_def Let_def split: outcome.splits prod.splits)
  qed
qed

text \<open>
  Apart from the chunk of the fallback path, a \<open>chunk\<close> or \<open>complete\<close> is put at most one
  action after \<open>stop()\<close>: each of these puts directly follows its own check of the event.
\<close>

lemma other_puts_guarded:
  assumes "\<forall>t. fallback_generate env msgs = Inr (Some t) \<longrightarrow> py_strip t = []"
  shows "silent_from (Suc j) (run env (Some j) msgs)"
proof -
  obtain r tr where b: "run_body env (Some j) msgs = (r, tr)"
    by (cases "run_body env (Some j) msgs")
  have c: "silent_from (Suc j) tr" using silent_run_body [OF assms, of j] b by simp
  have "silent_from (Suc j) (tr @ [IsSet False, Put (Error m)])" for m
    using c by (simp add: silent_from_append)
  then show ?thesis
    using c silent_check [OF c, of True] b
    by (auto simp: run_def split: outcome.splits)
qed

text \<open>
  C3. The claim fails on the fallback path: line 2884 puts the response as a \<open>chunk\<close> without
  a check of the event. Here the tokenizer call of the streaming path raises and \<open>stop()\<close>
  comes right after the check of line 2841, before the fallback generation has begun; the
  whole response is still put on the queue.
\<close>

theorem fallback_chunk_after_stop:
  "run fallback_env (Some 5) hello_thread
     = [IsSet False, IsSet False, IsSet False, Tokenize (spec_prompt hello_thread),
        IsSet False, FallbackGenerate, Put (Chunk ''Hello''), IsSet True, Put Stopped]
   \<and> \<not> silent_from 5 (run fallback_env (Some 5) hello_thread)
   \<and> \<not> silent_from 6 (run fallback_env (Some 5) hello_thread)"
  by code_simp

end
